theory Spec2Isabelle
  imports Complex_Main
begin

section \<open>OmniSession: the session capture and restore engine of the extension\<close>

text \<open>
  The development embeds the service worker of the extension (the identity-scoped,
  end-to-end encrypting \<^verbatim>\<open>background.js\<close>): its pure helpers
  (\<^verbatim>\<open>getRootDomain\<close>, \<^verbatim>\<open>isRestrictedUrl\<close>, \<^verbatim>\<open>collectCandidateHosts\<close>,
  \<^verbatim>\<open>mergeCookies\<close>, \<^verbatim>\<open>filterCookiesForDomain\<close>, \<^verbatim>\<open>buildCookieDetails\<close>) as HOL
  functions, its envelope (\<^verbatim>\<open>deriveKey\<close>, \<^verbatim>\<open>encryptE2EPayload\<close>,
  \<^verbatim>\<open>decryptE2EPayload\<close>) as the composition of the platform's primitives that the
  source writes, and its asynchronous operations (\<^verbatim>\<open>readLocalStorageForUrl\<close>,
  \<^verbatim>\<open>writeLocalStorageForUrl\<close>, \<^verbatim>\<open>runBackup\<close>, \<^verbatim>\<open>runRestore\<close>) as functions that
  pass a browser state along and return either the error thrown or the value returned.
\<close>

subsection \<open>Strings\<close>

text \<open>
  JavaScript strings are modelled as \<^typ>\<open>string\<close>. A test for falsiness of a string
  (\<^verbatim>\<open>!s\<close>, \<^verbatim>\<open>s || d\<close>) is a test for the empty string.
\<close>

definition startsWith :: "string \<Rightarrow> string \<Rightarrow> bool" where
  "startsWith s p = (take (length p) s = p)"

definition endsWith :: "string \<Rightarrow> string \<Rightarrow> bool" where
  "endsWith s p = (length p \<le> length s \<and> drop (length s - length p) s = p)"

text \<open>\<^verbatim>\<open>s.split(sep)\<close> for a one-character separator: never the empty array.\<close>

fun split_on :: "char \<Rightarrow> string \<Rightarrow> string list" where
  "split_on sep [] = [[]]"
| "split_on sep (c # cs) =
     (if c = sep then [] # split_on sep cs
      else (case split_on sep cs of
              [] \<Rightarrow> [[c]]
            | p # ps \<Rightarrow> (c # p) # ps))"

text \<open>\<^verbatim>\<open>parts.join(sep)\<close>.\<close>

fun join_with :: "string \<Rightarrow> string list \<Rightarrow> string" where
  "join_with sep [] = []"
| "join_with sep [p] = p"
| "join_with sep (p # q # ps) = p @ sep @ join_with sep (q # ps)"

text \<open>\<^verbatim>\<open>parts.slice(-2)\<close>: the last two elements, or all of them when there are fewer.\<close>

definition slice_last2 :: "'a list \<Rightarrow> 'a list" where
  "slice_last2 xs = drop (length xs - 2) xs"

text \<open>\<^verbatim>\<open>s.replace(/^\./, "")\<close>: one leading dot is removed.\<close>

fun strip_leading_dot :: "string \<Rightarrow> string" where
  "strip_leading_dot [] = []"
| "strip_leading_dot (c # cs) = (if c = CHR ''.'' then cs else c # cs)"

subsection \<open>Errors\<close>

text \<open>
  Every \<^verbatim>\<open>throw\<close> of the source and every rejection of a browser call is a value of
  this type. The messages of the source are looked up in the localisation table by key;
  the constructors stand for the keys.
\<close>

datatype error =
    NoActiveTab                 \<comment> \<open>\<^verbatim>\<open>error_no_active_tab\<close>\<close>
  | UnsupportedPage string      \<comment> \<open>\<^verbatim>\<open>error_unsupported_page\<close>, with the action\<close>
  | UserIdMissing               \<comment> \<open>\<^verbatim>\<open>error_user_id_missing\<close>\<close>
  | CookieSizeExceeded nat      \<comment> \<open>\<^verbatim>\<open>error_cookie_size_exceeded\<close>, with the limit in KiB\<close>
  | TabLoadTimeout              \<comment> \<open>\<^verbatim>\<open>"Tab load timeout"\<close>\<close>
  | BackupFailed nat            \<comment> \<open>\<^verbatim>\<open>error_backup_failed\<close>, with the status\<close>
  | RestoreFailed nat           \<comment> \<open>\<^verbatim>\<open>error_restore_failed\<close>, with the status\<close>
  | PasswordRequired            \<comment> \<open>\<^verbatim>\<open>error_password_required\<close>\<close>
  | InvalidPassword             \<comment> \<open>\<^verbatim>\<open>error_invalid_password\<close>\<close>
  | TypeError                   \<comment> \<open>thrown by the platform, for instance by \<^verbatim>\<open>new URL\<close>\<close>
  | LastError string            \<comment> \<open>\<^verbatim>\<open>chrome.runtime.lastError\<close> of a browser call\<close>
  | NetworkError                \<comment> \<open>a rejected \<^verbatim>\<open>fetch\<close>\<close>
  | SyntaxError                 \<comment> \<open>thrown by \<^verbatim>\<open>response.json()\<close> or \<^verbatim>\<open>JSON.parse\<close>\<close>
  | OperationError              \<comment> \<open>a rejected call of \<^verbatim>\<open>crypto.subtle\<close>\<close>
  | InvalidCharacterError       \<comment> \<open>thrown by \<^verbatim>\<open>atob\<close>\<close>

subsection \<open>The platform's URL class\<close>

text \<open>
  \<^verbatim>\<open>new URL(u)\<close> is a primitive of the platform. The model covers what the service
  worker reads from it (\<^verbatim>\<open>hostname\<close> and \<^verbatim>\<open>origin\<close>), on URLs of the shape
  \<^verbatim>\<open>scheme:[//][userinfo@]host[:port][/path][?query][#fragment]\<close>:
  \<^item> the scheme ends at the first colon, starts with a letter, consists of letters, digits
    and \<^verbatim>\<open>+ - .\<close>, and is lower-cased; a string with no such scheme is no URL
    (\<^verbatim>\<open>TypeError\<close>);
  \<^item> for the special schemes (\<^verbatim>\<open>http\<close>, \<^verbatim>\<open>https\<close>, \<^verbatim>\<open>ws\<close>, \<^verbatim>\<open>wss\<close>,
    \<^verbatim>\<open>ftp\<close>) the authority follows any number of slashes and backslashes and ends at
    the first of \<^verbatim>\<open>/ \ ? #\<close>, and an empty host is a \<^verbatim>\<open>TypeError\<close>; for another
    scheme there is an authority only after \<^verbatim>\<open>//\<close>, and without one the host name is
    empty and the origin opaque (\<^verbatim>\<open>"null"\<close>);
  \<^item> the host is what follows the last \<^verbatim>\<open>@\<close>; an IPv6 literal in brackets is kept
    whole, any other host ends at the colon of the port; the host is lower-cased;
  \<^item> the default port of the scheme is dropped.

  Percent-decoding, internationalised names, the normalisation of numeric IPv4 hosts and
  the stripping of white space are not modelled: the URLs of tabs that the browser
  reports are serialised already.
\<close>

record url =
  url_scheme :: string
  url_host :: string
  url_port :: string

definition ascii_lower :: "char \<Rightarrow> char" where
  "ascii_lower c =
     (let n = (of_char c :: nat) in if 65 \<le> n \<and> n \<le> 90 then char_of (n + 32) else c)"

definition ascii_letter :: "char \<Rightarrow> bool" where
  "ascii_letter c =
     (let n = (of_char c :: nat) in (65 \<le> n \<and> n \<le> 90) \<or> (97 \<le> n \<and> n \<le> 122))"

definition scheme_char :: "char \<Rightarrow> bool" where
  "scheme_char c =
     (let n = (of_char c :: nat)
      in ascii_letter c \<or> (48 \<le> n \<and> n \<le> 57) \<or> c = CHR ''+'' \<or> c = CHR ''-'' \<or> c = CHR ''.'')"

definition special_scheme :: "string \<Rightarrow> bool" where
  "special_scheme s = (s \<in> set [''http'', ''https'', ''ws'', ''wss'', ''ftp''])"

definition default_port :: "string \<Rightarrow> string" where
  "default_port s =
     (if s = ''http'' \<or> s = ''ws'' then '':80''
      else if s = ''https'' \<or> s = ''wss'' then '':443''
      else if s = ''ftp'' then '':21''
      else [])"

definition slash :: "char \<Rightarrow> bool" where
  "slash c = (c = CHR ''/'' \<or> c = CHR 0x5C)"

definition authority_end :: "string \<Rightarrow> char \<Rightarrow> bool" where
  "authority_end scheme c =
     (c = CHR ''/'' \<or> c = CHR ''?'' \<or> c = CHR ''#'' \<or> (special_scheme scheme \<and> c = CHR 0x5C))"

text \<open>The host and the port of an authority, or nothing for an unclosed bracket.\<close>

definition split_authority :: "string \<Rightarrow> (string \<times> string) option" where
  "split_authority authority =
     (let hostport = rev (takeWhile (\<lambda>c. c \<noteq> CHR ''@'') (rev authority))
      in if startsWith hostport ''[''
         then (if CHR '']'' \<in> set hostport
               then Some (takeWhile (\<lambda>c. c \<noteq> CHR '']'') hostport @ '']'',
                          tl (dropWhile (\<lambda>c. c \<noteq> CHR '']'') hostport))
               else None)
         else Some (takeWhile (\<lambda>c. c \<noteq> CHR '':'') hostport,
                    dropWhile (\<lambda>c. c \<noteq> CHR '':'') hostport))"

definition with_authority :: "string \<Rightarrow> string \<Rightarrow> error + url" where
  "with_authority scheme after =
     (case split_authority (takeWhile (\<lambda>c. \<not> authority_end scheme c) after) of
        None \<Rightarrow> Inl TypeError
      | Some (host, port) \<Rightarrow>
          if host = [] \<and> special_scheme scheme then Inl TypeError
          else Inr \<lparr>url_scheme = scheme,
                    url_host = map ascii_lower host,
                    url_port = (if port = default_port scheme \<or> port = '':'' then [] else port)\<rparr>)"

definition new_URL :: "string \<Rightarrow> error + url" where
  "new_URL u =
     (let raw = takeWhile (\<lambda>c. c \<noteq> CHR '':'') u;
          rest = dropWhile (\<lambda>c. c \<noteq> CHR '':'') u;
          scheme = map ascii_lower raw
      in if raw = [] \<or> rest = [] \<or> \<not> ascii_letter (hd raw) \<or> \<not> list_all scheme_char raw
         then Inl TypeError
         else if special_scheme scheme then with_authority scheme (dropWhile slash (tl rest))
         else if startsWith (tl rest) ''//'' then with_authority scheme (drop 2 (tl rest))
         else Inr \<lparr>url_scheme = scheme, url_host = [], url_port = []\<rparr>)"

definition hostname :: "url \<Rightarrow> string" where
  "hostname u = url_host u"

definition origin :: "url \<Rightarrow> string" where
  "origin u =
     (if url_host u = [] then ''null''
      else url_scheme u @ ''://'' @ url_host u @ url_port u)"

subsection \<open>Root domain and restricted pages\<close>

text \<open>
  \<^verbatim>\<open>
  function getRootDomain(url) {
    const hostname = new URL(url).hostname;
    const parts = hostname.split(".");
    if (parts.length > 2) {
      return parts.slice(-2).join(".");
    }
    return hostname;
  }
  \<close>
\<close>

definition getRootDomain :: "string \<Rightarrow> error + string" where
  "getRootDomain u =
     (case new_URL u of
        Inl e \<Rightarrow> Inl e
      | Inr parsed \<Rightarrow>
          (let parts = split_on CHR ''.'' (hostname parsed)
           in if length parts > 2 then Inr (join_with ''.'' (slice_last2 parts))
              else Inr (hostname parsed)))"

definition isRestrictedUrl :: "string \<Rightarrow> bool" where
  "isRestrictedUrl u =
     (startsWith u ''chrome://'' \<or> startsWith u ''chrome-extension://'' \<or>
      startsWith u ''edge://'')"

subsection \<open>Cookies\<close>

text \<open>
  A cookie as \<^verbatim>\<open>chrome.cookies.getAll\<close> returns it and as the backup carries it.
  The fields the browser always sets are plain; those the source tests for presence
  (\<^verbatim>\<open>!cookie.hostOnly\<close>, \<^verbatim>\<open>cookie.sameSite !== undefined\<close>,
  \<^verbatim>\<open>typeof cookie.expirationDate === "number"\<close>, \<^verbatim>\<open>cookie.priority\<close>,
  \<^verbatim>\<open>cookie.sameParty !== undefined\<close>) are optional, \<^const>\<open>None\<close> standing for an
  absent field.
\<close>

record cookie =
  cookie_name :: string
  cookie_value :: string
  cookie_domain :: string
  cookie_path :: string
  cookie_secure :: bool
  cookie_httpOnly :: bool
  cookie_hostOnly :: "bool option"
  cookie_sameSite :: "string option"
  cookie_expirationDate :: "rat option"
  cookie_priority :: "string option"
  cookie_sameParty :: "bool option"

text \<open>
  \<^verbatim>\<open>
  function collectCandidateHosts(cookies, currentHostname) {
    const hosts = new Set([currentHostname]);
    cookies.forEach((cookie) => {
      if (!cookie.domain) { return; }
      const host = cookie.domain.replace(/^\./, "");
      if (host) { hosts.add(host); }
    });
    return Array.from(hosts);
  }
  \<close>
  A \<^verbatim>\<open>Set\<close> iterates in insertion order, and adding a member again changes
  nothing: a list without repetitions, extended at its end.
\<close>

definition set_add :: "'a list \<Rightarrow> 'a \<Rightarrow> 'a list" where
  "set_add xs x = (if x \<in> set xs then xs else xs @ [x])"

definition candidate_step :: "string list \<Rightarrow> cookie \<Rightarrow> string list" where
  "candidate_step hosts c =
     (if cookie_domain c = [] then hosts
      else (let host = strip_leading_dot (cookie_domain c)
            in if host \<noteq> [] then set_add hosts host else hosts))"

definition collectCandidateHosts :: "cookie list \<Rightarrow> string \<Rightarrow> string list" where
  "collectCandidateHosts cookies currentHostname =
     foldl candidate_step [currentHostname] cookies"

text \<open>
  \<^verbatim>\<open>
  function mergeCookies(...cookieLists) {
    const merged = new Map();
    cookieLists.flat().forEach((cookie) => {
      if (!cookie || !cookie.name) { return; }
      const key = `${cookie.name}|${cookie.domain || ""}|${cookie.path || ""}`;
      if (!merged.has(key)) { merged.set(key, cookie); }
    });
    return Array.from(merged.values());
  }
  \<close>
  The \<^verbatim>\<open>Map\<close> is an association list in insertion order. On a string,
  \<^verbatim>\<open>s || ""\<close> is \<^verbatim>\<open>s\<close>.
\<close>

definition cookie_key :: "cookie \<Rightarrow> string" where
  "cookie_key c = cookie_name c @ ''|'' @ cookie_domain c @ ''|'' @ cookie_path c"

definition merge_step :: "(string \<times> cookie) list \<Rightarrow> cookie \<Rightarrow> (string \<times> cookie) list" where
  "merge_step merged c =
     (if cookie_name c = [] then merged
      else if map_of merged (cookie_key c) = None then merged @ [(cookie_key c, c)]
      else merged)"

definition mergeCookies :: "cookie list list \<Rightarrow> cookie list" where
  "mergeCookies cookieLists = map snd (foldl merge_step [] (concat cookieLists))"

text \<open>
  \<^verbatim>\<open>
  function filterCookiesForDomain(cookies, rootDomain, currentHostname) {
    return cookies.filter((cookie) => {
      const cookieDomain = cookie.domain ? cookie.domain.replace(/^\./, "") : "";
      if (!cookieDomain) { return false; }
      if (cookieDomain === currentHostname || cookieDomain === rootDomain) { return true; }
      return cookieDomain.endsWith(`.${rootDomain}`);
    });
  }
  \<close>
\<close>

definition filterCookiesForDomain :: "cookie list \<Rightarrow> string \<Rightarrow> string \<Rightarrow> cookie list" where
  "filterCookiesForDomain cookies rootDomain currentHostname =
     filter (\<lambda>c.
       (let cookieDomain = (if cookie_domain c \<noteq> [] then strip_leading_dot (cookie_domain c) else [])
        in if cookieDomain = [] then False
           else if cookieDomain = currentHostname \<or> cookieDomain = rootDomain then True
           else endsWith cookieDomain (''.'' @ rootDomain))) cookies"

text \<open>
  The argument of \<^verbatim>\<open>chrome.cookies.set\<close> that \<^verbatim>\<open>buildCookieDetails\<close> assembles.
  A field the source assigns under a condition is optional.
  \<^verbatim>\<open>
  function buildCookieDetails(cookie, storeId) {
    const hostname = cookie.domain.replace(/^\./, "");
    const url = `${cookie.secure ? "https" : "http"}://${hostname}${cookie.path || "/"}`;
    const details = { url, name: cookie.name, value: cookie.value, path: cookie.path,
                      secure: cookie.secure, httpOnly: cookie.httpOnly };
    if (!cookie.hostOnly) { details.domain = cookie.domain; }
    if (storeId) { details.storeId = storeId; }
    if (cookie.sameSite !== undefined) { details.sameSite = cookie.sameSite; }
    if (typeof cookie.expirationDate === "number") { details.expirationDate = cookie.expirationDate; }
    if (cookie.priority) { details.priority = cookie.priority; }
    if (cookie.sameParty !== undefined) { details.sameParty = cookie.sameParty; }
    return details;
  }
  \<close>
\<close>

record details =
  details_url :: string
  details_name :: string
  details_value :: string
  details_path :: string
  details_secure :: bool
  details_httpOnly :: bool
  details_domain :: "string option"
  details_storeId :: "string option"
  details_sameSite :: "string option"
  details_expirationDate :: "rat option"
  details_priority :: "string option"
  details_sameParty :: "bool option"

definition truthy_string :: "string option \<Rightarrow> bool" where
  "truthy_string s = (case s of None \<Rightarrow> False | Some v \<Rightarrow> v \<noteq> [])"

definition buildCookieDetails :: "cookie \<Rightarrow> string option \<Rightarrow> details" where
  "buildCookieDetails c storeId =
     (let host = strip_leading_dot (cookie_domain c);
          u = (if cookie_secure c then ''https'' else ''http'') @ ''://'' @ host @
              (if cookie_path c \<noteq> [] then cookie_path c else ''/'')
      in \<lparr>details_url = u,
          details_name = cookie_name c,
          details_value = cookie_value c,
          details_path = cookie_path c,
          details_secure = cookie_secure c,
          details_httpOnly = cookie_httpOnly c,
          details_domain = (if cookie_hostOnly c \<noteq> Some True then Some (cookie_domain c) else None),
          details_storeId = (if truthy_string storeId then storeId else None),
          details_sameSite = cookie_sameSite c,
          details_expirationDate = cookie_expirationDate c,
          details_priority = (if truthy_string (cookie_priority c) then cookie_priority c else None),
          details_sameParty = cookie_sameParty c\<rparr>)"

subsection \<open>The browser, the server and the state of an operation\<close>

text \<open>
  A \<^verbatim>\<open>localStorage\<close> snapshot is an object from keys to values, and the storage map of a
  backup an object from origins to snapshots. Objects keep their keys in insertion order,
  so both are association lists; a snapshot is an object and therefore truthy, so that
  \<^verbatim>\<open>!localStorageMap[origin]\<close> holds exactly when the origin has no entry.
\<close>

type_synonym storage = "(string \<times> string) list"
type_synonym storage_map = "(string \<times> storage) list"

record tab =
  tab_id :: nat
  tab_url :: "string option"

record cookie_store =
  store_id :: string
  store_tabIds :: "nat list"

record query =
  query_domain :: "string option"
  query_url :: "string option"
  query_storeId :: "string option"

record envelope =
  envelope_payload :: string
  envelope_salt :: string
  envelope_nonce :: string

text \<open>The two shapes of the body that \<^verbatim>\<open>runBackup\<close> posts: plain, and end-to-end encrypted.\<close>

datatype body =
    PlainBody string string string "cookie list" storage_map
      \<comment> \<open>\<^verbatim>\<open>{user_id, device, domain, cookies, local_storage}\<close>\<close>
  | E2EBody string string string envelope
      \<comment> \<open>\<^verbatim>\<open>{user_id, device, domain, payload, salt, nonce}\<close>\<close>

record request =
  request_method :: string
  request_url :: string
  request_headers :: "(string \<times> string) list"
  request_body :: "body option"

text \<open>
  What \<^verbatim>\<open>response.json()\<close> resolves to, with the fields the worker reads; an absent
  field (or \<^verbatim>\<open>cookies\<close> that is no array) is \<^const>\<open>None\<close>.
\<close>

record response_data =
  data_detail :: "string option"
  data_cookies :: "cookie list option"
  data_local_storage :: "storage_map option"
  data_payload :: "string option"
  data_salt :: "string option"
  data_nonce :: "string option"

record response =
  response_status :: nat
  response_json :: "response_data option"  \<comment> \<open>\<^const>\<open>None\<close>: the body is no JSON\<close>

definition response_ok :: "response \<Rightarrow> bool" where
  "response_ok r = (200 \<le> response_status r \<and> response_status r \<le> 299)"

text \<open>What \<^verbatim>\<open>decryptE2EPayload\<close> parses from the plaintext.\<close>

record decrypted =
  decrypted_cookies :: "cookie list option"
  decrypted_local_storage :: "storage_map option"

text \<open>
  The calls the worker issues, in the order it issues them, are recorded in a trace.
\<close>

datatype event =
    TabsQuery
  | StorageLocalGet string
  | CookiesGetAllCookieStores
  | CookiesGetAll query
  | CookiesSet details
  | ScriptingRead nat
  | ScriptingWrite nat storage
  | TabsCreate string
  | WaitForTabLoad nat
  | TabsGet nat
  | TabsRemove nat
  | TabsReload nat
  | Fetch request

text \<open>
  The answers of the environment: of the browser to each call, of the server to each
  request, and of the platform's serialisation and cryptography. \<^const>\<open>Inl\<close> is a
  rejection. \<^verbatim>\<open>getCookiesSizeBytes\<close> consists of \<^verbatim>\<open>JSON.stringify\<close> and
  \<^verbatim>\<open>TextEncoder\<close>: its result is the answer \<open>json_utf8_length\<close>. Byte arrays and
  binary strings are strings of 8-bit characters. The cryptographic primitives are
  \<^verbatim>\<open>crypto.getRandomValues(new Uint8Array(n))\<close>, SHA-256, the iterated part of PBKDF2
  over an HMAC key block (see \<open>deriveKey\<close> below), and AES-GCM encryption and decryption
  with a key, a nonce and a text; \<^verbatim>\<open>JSON.stringify\<close> and \<^verbatim>\<open>JSON.parse\<close> are those of
  the payload \<^verbatim>\<open>{cookies, local_storage}\<close>.
\<close>

record browser =
  tabs_query :: "error + tab list"
  storage_local_get :: "string \<Rightarrow> error + string option"
  cookies_getAllCookieStores :: "error + cookie_store list"
  cookies_getAll :: "query \<Rightarrow> error + cookie list"
  cookies_set :: "details \<Rightarrow> error + unit"
  scripting_read :: "nat \<Rightarrow> error + storage option list"
  scripting_write :: "nat \<Rightarrow> storage \<Rightarrow> error + unit"
  tabs_create :: "string \<Rightarrow> error + nat"
  tab_load_complete :: "nat \<Rightarrow> bool"
  tabs_get :: "nat \<Rightarrow> error + tab"
  tabs_reload :: "nat \<Rightarrow> error + unit"
  fetch_response :: "request \<Rightarrow> error + response"
  json_utf8_length :: "cookie list \<Rightarrow> nat"
  getRandomValues :: "nat \<Rightarrow> string"
  btoa :: "string \<Rightarrow> string"
  atob :: "string \<Rightarrow> error + string"
  JSON_stringify :: "cookie list \<times> storage_map \<Rightarrow> string"
  JSON_parse :: "string \<Rightarrow> error + decrypted"
  sha256 :: "string \<Rightarrow> string"
  pbkdf2_hmac :: "string \<Rightarrow> string \<Rightarrow> nat \<Rightarrow> string"
  aes_gcm_encrypt :: "string \<Rightarrow> string \<Rightarrow> string \<Rightarrow> error + string"
  aes_gcm_decrypt :: "string \<Rightarrow> string \<Rightarrow> string \<Rightarrow> error + string"

record world =
  trace :: "event list"     \<comment> \<open>the calls issued so far, oldest first\<close>
  open_tabs :: "nat list"   \<comment> \<open>the tabs the worker has created and not removed\<close>

type_synonym 'a io = "world \<Rightarrow> (error + 'a) \<times> world"

text \<open>
  An \<^verbatim>\<open>async\<close> function is a function from the state to its outcome and the new state:
  \<open>resolve\<close> and \<open>throw\<close> end it, \<open>await\<close> sequences, \<open>try_catch\<close> and \<open>try_finally\<close>
  are the statements of the same name (an error thrown by the \<^verbatim>\<open>finally\<close> block replaces
  the outcome of the \<^verbatim>\<open>try\<close> block).
\<close>

definition resolve :: "'a \<Rightarrow> 'a io" where
  "resolve x w = (Inr x, w)"

definition throw :: "error \<Rightarrow> 'a io" where
  "throw e w = (Inl e, w)"

definition await :: "'a io \<Rightarrow> ('a \<Rightarrow> 'b io) \<Rightarrow> 'b io" where
  "await m f w = (case m w of (Inl e, w') \<Rightarrow> (Inl e, w') | (Inr x, w') \<Rightarrow> f x w')"

definition try_catch :: "'a io \<Rightarrow> (error \<Rightarrow> 'a io) \<Rightarrow> 'a io" where
  "try_catch m h w = (case m w of (Inl e, w') \<Rightarrow> h e w' | (Inr x, w') \<Rightarrow> (Inr x, w'))"

definition try_finally :: "'a io \<Rightarrow> unit io \<Rightarrow> 'a io" where
  "try_finally m fin w =
     (case m w of (r, w') \<Rightarrow>
        (case fin w' of (Inl e, w'') \<Rightarrow> (Inl e, w'') | (Inr u, w'') \<Rightarrow> (r, w'')))"

text \<open>
  \<^verbatim>\<open>chromePromise(fn, ...args)\<close>: the call is issued and the promise settles with the
  browser's answer.
\<close>

definition chromePromise :: "event \<Rightarrow> error + 'a \<Rightarrow> 'a io" where
  "chromePromise ev answer w = (answer, w\<lparr>trace := trace w @ [ev]\<rparr>)"

text \<open>
  \<^verbatim>\<open>chrome.tabs.create\<close> opens the tab it answers with; \<^verbatim>\<open>chrome.tabs.remove\<close> closes
  an open tab and rejects for a tab that is not open.
\<close>

definition chrome_tabs_create :: "browser \<Rightarrow> string \<Rightarrow> nat io" where
  "chrome_tabs_create b u w =
     (case tabs_create b u of
        Inl e \<Rightarrow> (Inl e, w\<lparr>trace := trace w @ [TabsCreate u]\<rparr>)
      | Inr i \<Rightarrow> (Inr i, w\<lparr>trace := trace w @ [TabsCreate u], open_tabs := i # open_tabs w\<rparr>))"

definition chrome_tabs_remove :: "nat \<Rightarrow> unit io" where
  "chrome_tabs_remove i w =
     (if i \<in> set (open_tabs w)
      then (Inr (), w\<lparr>trace := trace w @ [TabsRemove i], open_tabs := removeAll i (open_tabs w)\<rparr>)
      else (Inl (LastError ''No tab with id''), w\<lparr>trace := trace w @ [TabsRemove i]\<rparr>))"

definition fetch :: "browser \<Rightarrow> request \<Rightarrow> response io" where
  "fetch b req = chromePromise (Fetch req) (fetch_response b req)"

subsection \<open>Settings and tabs\<close>

definition API_BASE :: string where "API_BASE = ''http://localhost:8000''"
definition API_BASE_KEY :: string where "API_BASE_KEY = ''apiBase''"
definition API_PASSWORD_KEY :: string where "API_PASSWORD_KEY = ''apiPassword''"
definition USER_ID_KEY :: string where "USER_ID_KEY = ''userId''"
definition E2E_PREFIX :: string where "E2E_PREFIX = ''/e2e''"
definition COOKIE_SIZE_LIMIT_BYTES :: nat where "COOKIE_SIZE_LIMIT_BYTES = 6 * 1024"

text \<open>\<^verbatim>\<open>data[key] || fallback\<close>.\<close>

definition or_default :: "string option \<Rightarrow> string \<Rightarrow> string" where
  "or_default v d = (case v of None \<Rightarrow> d | Some s \<Rightarrow> if s = [] then d else s)"

text \<open>\<^verbatim>\<open>getActiveTab\<close> returns \<^verbatim>\<open>tabs[0]\<close>, undefined for an empty array.\<close>

definition getActiveTab :: "browser \<Rightarrow> tab option io" where
  "getActiveTab b =
     await (chromePromise TabsQuery (tabs_query b))
       (\<lambda>tabs. resolve (case tabs of [] \<Rightarrow> None | t # ts \<Rightarrow> Some t))"

definition getApiBase :: "browser \<Rightarrow> string io" where
  "getApiBase b =
     await (chromePromise (StorageLocalGet API_BASE_KEY) (storage_local_get b API_BASE_KEY))
       (\<lambda>v. resolve (or_default v API_BASE))"

definition getApiPassword :: "browser \<Rightarrow> string io" where
  "getApiPassword b =
     await (chromePromise (StorageLocalGet API_PASSWORD_KEY) (storage_local_get b API_PASSWORD_KEY))
       (\<lambda>v. resolve (or_default v []))"

definition getUserId :: "browser \<Rightarrow> string io" where
  "getUserId b =
     await (chromePromise (StorageLocalGet USER_ID_KEY) (storage_local_get b USER_ID_KEY))
       (\<lambda>v. resolve (or_default v []))"

text \<open>
  \<^verbatim>\<open>waitForTabLoad(tabId)\<close> resolves when the tab reports \<^verbatim>\<open>complete\<close> and rejects
  with \<^verbatim>\<open>"Tab load timeout"\<close> when the timer of 12 seconds fires first. Which of the two
  happens is an answer of the browser.
\<close>

definition waitForTabLoad :: "browser \<Rightarrow> nat \<Rightarrow> unit io" where
  "waitForTabLoad b tabId =
     chromePromise (WaitForTabLoad tabId)
       (if tab_load_complete b tabId then Inr () else Inl TabLoadTimeout)"

text \<open>
  \<^verbatim>\<open>
  async function readLocalStorage(tabId) {
    const results = await chromePromise(chrome.scripting.executeScript, {...});
    if (!results || results.length === 0) { return {}; }
    return results[0].result || {};
  }
  \<close>
\<close>

definition readLocalStorage :: "browser \<Rightarrow> nat \<Rightarrow> storage io" where
  "readLocalStorage b tabId =
     await (chromePromise (ScriptingRead tabId) (scripting_read b tabId))
       (\<lambda>results. resolve (case results of
                              [] \<Rightarrow> []
                            | r # rs \<Rightarrow> (case r of None \<Rightarrow> [] | Some data \<Rightarrow> data)))"

definition writeLocalStorage :: "browser \<Rightarrow> nat \<Rightarrow> storage \<Rightarrow> unit io" where
  "writeLocalStorage b tabId payload =
     chromePromise (ScriptingWrite tabId payload) (scripting_write b tabId payload)"

text \<open>
  \<^verbatim>\<open>
  async function readLocalStorageForUrl(url) {
    let tab = null;
    try {
      tab = await chromePromise(chrome.tabs.create, {url, active: false});
      await waitForTabLoad(tab.id);
      const currentTab = await chromePromise(chrome.tabs.get, tab.id);
      if (!currentTab.url || isRestrictedUrl(currentTab.url)) {
        throw new Error(USK_I18N.t("error_unsupported_page", {...}));
      }
      const data = await readLocalStorage(tab.id);
      const origin = new URL(currentTab.url).origin;
      return {origin, data};
    } finally {
      if (tab) { await chromePromise(chrome.tabs.remove, tab.id); }
    }
  }
  \<close>
  When \<^verbatim>\<open>chrome.tabs.create\<close> rejects, \<^verbatim>\<open>tab\<close> is still \<^verbatim>\<open>null\<close> and the
  \<^verbatim>\<open>finally\<close> block does nothing; otherwise the rest of the \<^verbatim>\<open>try\<close> block
  (\<open>read_in_tab\<close>) runs under the \<^verbatim>\<open>finally\<close> block that removes the tab.
\<close>

definition usable_url :: "tab \<Rightarrow> string option" where
  "usable_url t =
     (case tab_url t of
        None \<Rightarrow> None
      | Some u \<Rightarrow> if u = [] \<or> isRestrictedUrl u then None else Some u)"

definition read_in_tab :: "browser \<Rightarrow> nat \<Rightarrow> (string \<times> storage) io" where
  "read_in_tab b i =
     await (waitForTabLoad b i) (\<lambda>u.
     await (chromePromise (TabsGet i) (tabs_get b i)) (\<lambda>currentTab.
       case usable_url currentTab of
         None \<Rightarrow> throw (UnsupportedPage ''storage'')
       | Some cu \<Rightarrow>
           await (readLocalStorage b i) (\<lambda>data.
             case new_URL cu of
               Inl e \<Rightarrow> throw e
             | Inr parsed \<Rightarrow> resolve (origin parsed, data))))"

definition readLocalStorageForUrl :: "browser \<Rightarrow> string \<Rightarrow> (string \<times> storage) io" where
  "readLocalStorageForUrl b u w =
     (case chrome_tabs_create b u w of
        (Inl e, w1) \<Rightarrow> (Inl e, w1)
      | (Inr i, w1) \<Rightarrow> try_finally (read_in_tab b i) (chrome_tabs_remove i) w1)"

text \<open>
  \<^verbatim>\<open>writeLocalStorageForUrl(origin, payload)\<close> has the same shape, with
  \<^verbatim>\<open>await writeLocalStorage(tab.id, payload)\<close> after the check of the page.
\<close>

definition write_in_tab :: "browser \<Rightarrow> nat \<Rightarrow> storage \<Rightarrow> unit io" where
  "write_in_tab b i payload =
     await (waitForTabLoad b i) (\<lambda>u.
     await (chromePromise (TabsGet i) (tabs_get b i)) (\<lambda>currentTab.
       case usable_url currentTab of
         None \<Rightarrow> throw (UnsupportedPage ''storage'')
       | Some cu \<Rightarrow> writeLocalStorage b i payload))"

definition writeLocalStorageForUrl :: "browser \<Rightarrow> string \<Rightarrow> storage \<Rightarrow> unit io" where
  "writeLocalStorageForUrl b orig payload w =
     (case chrome_tabs_create b orig w of
        (Inl e, w1) \<Rightarrow> (Inl e, w1)
      | (Inr i, w1) \<Rightarrow> try_finally (write_in_tab b i payload) (chrome_tabs_remove i) w1)"

subsection \<open>The encryption envelope\<close>

definition KDF_ITERATIONS :: nat where "KDF_ITERATIONS = 200000"

text \<open>The number of iterations is passed on to the primitive and never computed with.\<close>

declare KDF_ITERATIONS_def [code del]

definition KDF_SALT_BYTES :: nat where "KDF_SALT_BYTES = 16"
definition KDF_NONCE_BYTES :: nat where "KDF_NONCE_BYTES = 12"

text \<open>
  \<^verbatim>\<open>bytesToBase64(bytes)\<close> builds the binary string of the bytes and applies
  \<^verbatim>\<open>btoa\<close>; \<^verbatim>\<open>base64ToBytes(value)\<close> applies \<^verbatim>\<open>atob\<close> and reads the bytes of
  the binary string. \<^verbatim>\<open>atob(undefined)\<close> throws.
\<close>

definition bytesToBase64 :: "browser \<Rightarrow> string \<Rightarrow> string" where
  "bytesToBase64 b bytes = btoa b bytes"

definition base64ToBytes :: "browser \<Rightarrow> string option \<Rightarrow> error + string" where
  "base64ToBytes b v = (case v of None \<Rightarrow> Inl InvalidCharacterError | Some s \<Rightarrow> atob b s)"

text \<open>\<^verbatim>\<open>new TextEncoder().encode(s)\<close>: a string is the sequence of its UTF-8 bytes.\<close>

definition TextEncoder_encode :: "string \<Rightarrow> string" where
  "TextEncoder_encode s = s"

definition TextDecoder_decode :: "string \<Rightarrow> string" where
  "TextDecoder_decode bytes = bytes"

text \<open>
  \<^verbatim>\<open>
  async function deriveKey(password, salt) {
    const keyMaterial = await crypto.subtle.importKey("raw", encoder.encode(password), "PBKDF2", ...);
    return crypto.subtle.deriveKey(
        {name: "PBKDF2", salt, iterations: KDF_ITERATIONS, hash: "SHA-256"},
        keyMaterial, {name: "AES-GCM", length: 256}, false, ["encrypt", "decrypt"]);
  }
  \<close>
  PBKDF2 with the hash SHA-256 (RFC 8018) uses the password only as the key of
  HMAC-SHA-256, and HMAC (RFC 2104) first brings its key to the block size of 64 bytes:
  a longer key is replaced by its hash, and the key is filled up with zero bytes. The
  iterations over that key block are an answer of the environment.
\<close>

definition hmac_key_block :: "browser \<Rightarrow> string \<Rightarrow> string" where
  "hmac_key_block b k =
     (let k0 = (if length k > 64 then sha256 b k else k)
      in k0 @ replicate (64 - length k0) (CHR 0x00))"

definition deriveKey :: "browser \<Rightarrow> string \<Rightarrow> string \<Rightarrow> string" where
  "deriveKey b password salt =
     pbkdf2_hmac b (hmac_key_block b (TextEncoder_encode password)) salt KDF_ITERATIONS"

text \<open>
  \<^verbatim>\<open>
  async function encryptE2EPayload(payload, password) {
    const salt = crypto.getRandomValues(new Uint8Array(KDF_SALT_BYTES));
    const nonce = crypto.getRandomValues(new Uint8Array(KDF_NONCE_BYTES));
    const key = await deriveKey(password, salt);
    const plaintext = encoder.encode(JSON.stringify(payload));
    const ciphertext = await crypto.subtle.encrypt({name: "AES-GCM", iv: nonce}, key, plaintext);
    return { payload: bytesToBase64(new Uint8Array(ciphertext)),
             salt: bytesToBase64(salt), nonce: bytesToBase64(nonce) };
  }
  \<close>
  \<open>encrypt_result\<close> is what the promise settles with; the function issues no call of the
  browser and leaves the state as it is.
\<close>

definition encrypt_result ::
    "browser \<Rightarrow> cookie list \<times> storage_map \<Rightarrow> string \<Rightarrow> error + envelope" where
  "encrypt_result b payload password =
     (let salt = getRandomValues b KDF_SALT_BYTES;
          nonce = getRandomValues b KDF_NONCE_BYTES;
          key = deriveKey b password salt;
          plaintext = TextEncoder_encode (JSON_stringify b payload)
      in case aes_gcm_encrypt b key nonce plaintext of
           Inl e \<Rightarrow> Inl e
         | Inr ciphertext \<Rightarrow>
             Inr \<lparr>envelope_payload = bytesToBase64 b ciphertext,
                  envelope_salt = bytesToBase64 b salt,
                  envelope_nonce = bytesToBase64 b nonce\<rparr>)"

definition encryptE2EPayload :: "browser \<Rightarrow> cookie list \<times> storage_map \<Rightarrow> string \<Rightarrow> envelope io" where
  "encryptE2EPayload b payload password w = (encrypt_result b payload password, w)"

text \<open>
  \<^verbatim>\<open>
  async function decryptE2EPayload(payload, salt, nonce, password) {
    const saltBytes = base64ToBytes(salt);
    const nonceBytes = base64ToBytes(nonce);
    const key = await deriveKey(password, saltBytes);
    const plaintext = await crypto.subtle.decrypt(
        {name: "AES-GCM", iv: nonceBytes}, key, base64ToBytes(payload));
    return JSON.parse(decoder.decode(new Uint8Array(plaintext)));
  }
  \<close>
\<close>

definition decrypt_result ::
    "browser \<Rightarrow> string option \<Rightarrow> string option \<Rightarrow> string option \<Rightarrow> string \<Rightarrow> error + decrypted" where
  "decrypt_result b payload salt nonce password =
     (case base64ToBytes b salt of
        Inl e \<Rightarrow> Inl e
      | Inr saltBytes \<Rightarrow>
         (case base64ToBytes b nonce of
            Inl e \<Rightarrow> Inl e
          | Inr nonceBytes \<Rightarrow>
             (let key = deriveKey b password saltBytes
              in case base64ToBytes b payload of
                   Inl e \<Rightarrow> Inl e
                 | Inr ciphertext \<Rightarrow>
                    (case aes_gcm_decrypt b key nonceBytes ciphertext of
                       Inl e \<Rightarrow> Inl e
                     | Inr plaintext \<Rightarrow> JSON_parse b (TextDecoder_decode plaintext)))))"

definition decryptE2EPayload ::
    "browser \<Rightarrow> string option \<Rightarrow> string option \<Rightarrow> string option \<Rightarrow> string \<Rightarrow> decrypted io" where
  "decryptE2EPayload b payload salt nonce password w =
     (decrypt_result b payload salt nonce password, w)"

subsection \<open>Backup\<close>

text \<open>
  The cookie store of a tab (\<^verbatim>\<open>getCookieStoreIdForTab\<close>; \<^verbatim>\<open>runBackup\<close> has the same
  statements inline): a failed lookup is caught and gives \<^verbatim>\<open>null\<close>.
\<close>

definition getCookieStoreIdForTab :: "browser \<Rightarrow> nat \<Rightarrow> string option io" where
  "getCookieStoreIdForTab b tabId =
     try_catch
       (await (chromePromise CookiesGetAllCookieStores (cookies_getAllCookieStores b))
          (\<lambda>stores. resolve (case find (\<lambda>item. tabId \<in> set (store_tabIds item)) stores of
                                None \<Rightarrow> None
                              | Some store \<Rightarrow> Some (store_id store))))
       (\<lambda>e. resolve None)"

text \<open>\<^verbatim>\<open>storeId ? {...query, storeId} : query\<close>.\<close>

definition with_store :: "string option \<Rightarrow> query \<Rightarrow> query" where
  "with_store storeId q = (if truthy_string storeId then q\<lparr>query_storeId := storeId\<rparr> else q)"

text \<open>The loop over \<^verbatim>\<open>cookieQueries\<close>: one \<^verbatim>\<open>chrome.cookies.getAll\<close> after the other.\<close>

fun cookie_buckets :: "browser \<Rightarrow> string option \<Rightarrow> query list \<Rightarrow> cookie list list io" where
  "cookie_buckets b storeId [] = resolve []"
| "cookie_buckets b storeId (q # qs) =
     await (chromePromise (CookiesGetAll (with_store storeId q))
              (cookies_getAll b (with_store storeId q)))
       (\<lambda>result. await (cookie_buckets b storeId qs) (\<lambda>rest. resolve (result # rest)))"

definition by_domain :: "string \<Rightarrow> query" where
  "by_domain d = \<lparr>query_domain = Some d, query_url = None, query_storeId = None\<rparr>"

definition by_url :: "string \<Rightarrow> query" where
  "by_url u = \<lparr>query_domain = None, query_url = Some u, query_storeId = None\<rparr>"

definition all_cookies :: query where
  "all_cookies = \<lparr>query_domain = None, query_url = None, query_storeId = None\<rparr>"

text \<open>
  What \<^verbatim>\<open>runBackup\<close> has established when the cookies are collected (its lines up to the
  size guard): the active tab, the root domain, the user id, the origin and host name of
  the tab, and the merged cookies.
\<close>

record collected =
  collected_tabId :: nat
  collected_rootDomain :: string
  collected_userId :: string
  collected_currentOrigin :: string
  collected_currentHostname :: string
  collected_cookies :: "cookie list"

definition collectCookies :: "browser \<Rightarrow> collected io" where
  "collectCookies b =
     await (getActiveTab b) (\<lambda>active.
       case active of
         None \<Rightarrow> throw NoActiveTab
       | Some t \<Rightarrow>
          (case tab_url t of
             None \<Rightarrow> throw NoActiveTab
           | Some u \<Rightarrow>
               if u = [] then throw NoActiveTab
               else if isRestrictedUrl u then throw (UnsupportedPage ''backup'')
               else
                (case getRootDomain u of
                   Inl e \<Rightarrow> throw e
                 | Inr rootDomain \<Rightarrow>
                     await (getUserId b) (\<lambda>userId.
                       if userId = [] then throw UserIdMissing
                       else
                        (case new_URL u of
                           Inl e \<Rightarrow> throw e
                         | Inr currentUrl \<Rightarrow>
                            (let currentOrigin = origin currentUrl;
                                 currentHostname = hostname currentUrl
                             in await (getCookieStoreIdForTab b (tab_id t)) (\<lambda>storeId.
                                await (cookie_buckets b storeId
                                         [by_domain rootDomain, by_url u, by_url currentOrigin,
                                          by_url (currentOrigin @ ''/'')]) (\<lambda>cookieBuckets.
                                await (if mergeCookies cookieBuckets = []
                                       then await (chromePromise (CookiesGetAll (with_store storeId all_cookies))
                                                     (cookies_getAll b (with_store storeId all_cookies)))
                                              (\<lambda>allCookies. resolve
                                                 (mergeCookies [mergeCookies cookieBuckets,
                                                    filterCookiesForDomain allCookies rootDomain currentHostname]))
                                       else resolve (mergeCookies cookieBuckets)) (\<lambda>cookies.
                                resolve \<lparr>collected_tabId = tab_id t,
                                         collected_rootDomain = rootDomain,
                                         collected_userId = userId,
                                         collected_currentOrigin = currentOrigin,
                                         collected_currentHostname = currentHostname,
                                         collected_cookies = cookies\<rparr>)))))))))"

definition getCookiesSizeBytes :: "browser \<Rightarrow> cookie list \<Rightarrow> nat" where
  "getCookiesSizeBytes b cookies = json_utf8_length b cookies"

text \<open>
  The body of the harvesting loop, for a host other than the current one:
  \<^verbatim>\<open>
    let result = null;
    try {
      result = await readLocalStorageForUrl(`https://${host}`);
    } catch (error) {
      try {
        result = await readLocalStorageForUrl(`http://${host}`);
      } catch (httpError) { result = null; }
    }
    if (result && result.origin && !localStorageMap[result.origin]) {
      localStorageMap[result.origin] = result.data;
    }
  \<close>
\<close>

definition harvest_host :: "browser \<Rightarrow> string \<Rightarrow> (string \<times> storage) option io" where
  "harvest_host b host =
     try_catch
       (await (readLocalStorageForUrl b (''https://'' @ host)) (\<lambda>r. resolve (Some r)))
       (\<lambda>e. try_catch
               (await (readLocalStorageForUrl b (''http://'' @ host)) (\<lambda>r. resolve (Some r)))
               (\<lambda>httpError. resolve None))"

definition record_snapshot :: "storage_map \<Rightarrow> (string \<times> storage) option \<Rightarrow> storage_map" where
  "record_snapshot localStorageMap result =
     (case result of
        None \<Rightarrow> localStorageMap
      | Some (orig, data) \<Rightarrow>
          if orig \<noteq> [] \<and> map_of localStorageMap orig = None
          then localStorageMap @ [(orig, data)]
          else localStorageMap)"

fun harvest_loop :: "browser \<Rightarrow> string \<Rightarrow> string list \<Rightarrow> storage_map \<Rightarrow> storage_map io" where
  "harvest_loop b currentHostname [] localStorageMap = resolve localStorageMap"
| "harvest_loop b currentHostname (host # hosts) localStorageMap =
     (if host = currentHostname then harvest_loop b currentHostname hosts localStorageMap
      else await (harvest_host b host)
             (\<lambda>result. harvest_loop b currentHostname hosts
                          (record_snapshot localStorageMap result)))"

text \<open>The end of \<^verbatim>\<open>runBackup\<close>: the request body is assembled and posted.\<close>

definition submitBackup ::
    "browser \<Rightarrow> collected \<Rightarrow> storage_map \<Rightarrow> (string \<times> nat) io" where
  "submitBackup b c localStorageMap =
     await (getApiBase b) (\<lambda>apiBase.
     await (getApiPassword b) (\<lambda>apiPassword.
       (let useE2E = (apiPassword \<noteq> []);
            device = [];
            cookies = collected_cookies c
        in await (if useE2E
                  then await (encryptE2EPayload b (cookies, localStorageMap) apiPassword)
                         (\<lambda>encryptedPayload. resolve
                            (E2EBody (collected_userId c) device (collected_rootDomain c)
                               encryptedPayload))
                  else resolve (PlainBody (collected_userId c) device (collected_rootDomain c)
                                  cookies localStorageMap)) (\<lambda>requestBody.
           await (fetch b \<lparr>request_method = ''POST'',
                           request_url = apiBase @ (if useE2E then E2E_PREFIX @ ''/backup'' else ''/backup''),
                           request_headers = [(''Content-Type'', ''application/json'')],
                           request_body = Some requestBody\<rparr>) (\<lambda>response.
             if \<not> response_ok response then throw (BackupFailed (response_status response))
             else resolve (collected_rootDomain c, length cookies))))))"

definition runBackup :: "browser \<Rightarrow> (string \<times> nat) io" where
  "runBackup b =
     await (collectCookies b) (\<lambda>c.
       if getCookiesSizeBytes b (collected_cookies c) > COOKIE_SIZE_LIMIT_BYTES
       then throw (CookieSizeExceeded (COOKIE_SIZE_LIMIT_BYTES div 1024))
       else
         await (readLocalStorage b (collected_tabId c)) (\<lambda>localStorageData.
         await (harvest_loop b (collected_currentHostname c)
                  (collectCandidateHosts (collected_cookies c) (collected_currentHostname c))
                  [(collected_currentOrigin c, localStorageData)]) (\<lambda>localStorageMap.
         submitBackup b c localStorageMap)))"

subsection \<open>Restore\<close>

text \<open>
  \<^verbatim>\<open>encodeURIComponent\<close>: letters, digits and \<^verbatim>\<open>- _ . ! ~ * ' ( )\<close> stand for
  themselves, every other byte is written \<^verbatim>\<open>%XX\<close>.
\<close>

definition unreserved :: "char \<Rightarrow> bool" where
  "unreserved c =
     (let n = (of_char c :: nat)
      in (97 \<le> n \<and> n \<le> 122) \<or> (65 \<le> n \<and> n \<le> 90) \<or> (48 \<le> n \<and> n \<le> 57) \<or>
         c \<in> set ''-_.!~*()'' \<or> n = 39)"

definition hex_digit :: "nat \<Rightarrow> char" where
  "hex_digit n = ''0123456789ABCDEF'' ! (n mod 16)"

definition encodeURIComponent :: "string \<Rightarrow> string" where
  "encodeURIComponent s =
     concat (map (\<lambda>c. if unreserved c then [c]
                       else [CHR ''%'', hex_digit ((of_char c :: nat) div 16), hex_digit (of_char c)]) s)"

text \<open>
  \<^verbatim>\<open>Promise.all(cookies.map((cookie) => chromePromise(chrome.cookies.set, ...)))\<close>: every
  call is issued, and the result is a rejection when one of them rejects.
\<close>

fun set_cookies :: "browser \<Rightarrow> details list \<Rightarrow> unit io" where
  "set_cookies b [] = resolve ()"
| "set_cookies b (d # ds) =
     (\<lambda>w. case chromePromise (CookiesSet d) (cookies_set b d) w of
             (r, w1) \<Rightarrow>
               (case set_cookies b ds w1 of
                  (rs, w2) \<Rightarrow> ((case r of Inl e \<Rightarrow> Inl e | Inr u \<Rightarrow> rs), w2)))"

text \<open>
  The loop over the other origins: a failure of \<^verbatim>\<open>writeLocalStorageForUrl\<close> is caught
  and ignored.
\<close>

fun restore_origins :: "browser \<Rightarrow> string list \<Rightarrow> storage_map \<Rightarrow> unit io" where
  "restore_origins b [] localStorageMap = resolve ()"
| "restore_origins b (orig # origins) localStorageMap =
     await (try_catch
              (writeLocalStorageForUrl b orig
                 (case map_of localStorageMap orig of None \<Rightarrow> [] | Some data \<Rightarrow> data))
              (\<lambda>e. resolve ()))
       (\<lambda>u. restore_origins b origins localStorageMap)"

text \<open>
  The part of \<^verbatim>\<open>runRestore\<close> that turns the response into cookies and a storage map:
  \<^verbatim>\<open>
    if (useE2E) {
      if (!apiPassword) { throw new Error(USK_I18N.t("error_password_required")); }
      try {
        const decrypted = await decryptE2EPayload(data.payload, data.salt, data.nonce, apiPassword);
        cookies = Array.isArray(decrypted.cookies) ? decrypted.cookies : [];
        localStorageMap = decrypted.local_storage || {};
      } catch (error) {
        throw new Error(USK_I18N.t("error_invalid_password"));
      }
    } else {
      cookies = Array.isArray(data.cookies) ? data.cookies : [];
      localStorageMap = data.local_storage || {};
    }
  \<close>
\<close>

definition or_empty :: "'a list option \<Rightarrow> 'a list" where
  "or_empty v = (case v of None \<Rightarrow> [] | Some xs \<Rightarrow> xs)"

definition unpack_backup ::
    "browser \<Rightarrow> bool \<Rightarrow> string \<Rightarrow> response_data \<Rightarrow> (cookie list \<times> storage_map) io" where
  "unpack_backup b useE2E apiPassword data =
     (if useE2E then
        (if apiPassword = [] then throw PasswordRequired
         else try_catch
                (await (decryptE2EPayload b (data_payload data) (data_salt data) (data_nonce data)
                          apiPassword)
                   (\<lambda>d. resolve (or_empty (decrypted_cookies d), or_empty (decrypted_local_storage d))))
                (\<lambda>e. throw InvalidPassword))
      else resolve (or_empty (data_cookies data), or_empty (data_local_storage data)))"

text \<open>
  The handling of a response that is not ok:
  \<^verbatim>\<open>
    if (!useE2E && response.status === 401) {
      const data = await response.json().catch(() => null);
      if (data && data.detail === "Password required") { throw ...error_password_required }
      if (data && data.detail === "Invalid password") { throw ...error_invalid_password }
    }
    throw new Error(USK_I18N.t("error_restore_failed", {status: response.status}));
  \<close>
\<close>

definition restore_rejected :: "bool \<Rightarrow> response \<Rightarrow> error" where
  "restore_rejected useE2E response =
     (if \<not> useE2E \<and> response_status response = 401 then
        (case response_json response of
           None \<Rightarrow> RestoreFailed (response_status response)
         | Some data \<Rightarrow>
             if data_detail data = Some ''Password required'' then PasswordRequired
             else if data_detail data = Some ''Invalid password'' then InvalidPassword
             else RestoreFailed (response_status response))
      else RestoreFailed (response_status response))"

definition replay ::
    "browser \<Rightarrow> tab \<Rightarrow> string \<Rightarrow> cookie list \<Rightarrow> storage_map \<Rightarrow> unit io" where
  "replay b t u cookies localStorageMap =
     await (getCookieStoreIdForTab b (tab_id t)) (\<lambda>storeId.
     await (set_cookies b (map (\<lambda>cookie. buildCookieDetails cookie storeId) cookies)) (\<lambda>u1.
       case new_URL u of
         Inl e \<Rightarrow> throw e
       | Inr currentUrl \<Rightarrow>
           await (case map_of localStorageMap (origin currentUrl) of
                    None \<Rightarrow> resolve ()
                  | Some data \<Rightarrow> writeLocalStorage b (tab_id t) data) (\<lambda>u2.
           await (restore_origins b
                    (filter (\<lambda>orig. orig \<noteq> origin currentUrl) (map fst localStorageMap))
                    localStorageMap) (\<lambda>u3.
           chromePromise (TabsReload (tab_id t)) (tabs_reload b (tab_id t))))))"

definition fetch_backup ::
    "browser \<Rightarrow> string \<Rightarrow> string \<Rightarrow> (cookie list \<times> storage_map) io" where
  "fetch_backup b rootDomain userId =
     await (getApiBase b) (\<lambda>apiBase.
     await (getApiPassword b) (\<lambda>apiPassword.
       (let useE2E = (apiPassword \<noteq> []);
            restorePath = (if useE2E then E2E_PREFIX @ ''/restore'' else ''/restore'')
        in await (fetch b \<lparr>request_method = ''GET'',
                    request_url = apiBase @ restorePath @ ''/'' @ encodeURIComponent rootDomain,
                    request_headers = [(''X-USK-User'', userId)],
                    request_body = None\<rparr>) (\<lambda>response.
             if \<not> response_ok response then throw (restore_rejected useE2E response)
             else (case response_json response of
                     None \<Rightarrow> throw SyntaxError
                   | Some data \<Rightarrow> unpack_backup b useE2E apiPassword data)))))"

text \<open>
  \<^verbatim>\<open>runRestore\<close>: the checks of the active tab, the request and the unpacking of the
  response (\<open>fetch_backup\<close>), and the replay into the browser (\<open>replay\<close>).
\<close>

definition runRestore :: "browser \<Rightarrow> (string \<times> nat) io" where
  "runRestore b =
     await (getActiveTab b) (\<lambda>active.
       case active of
         None \<Rightarrow> throw NoActiveTab
       | Some t \<Rightarrow>
          (case tab_url t of
             None \<Rightarrow> throw NoActiveTab
           | Some u \<Rightarrow>
               if u = [] then throw NoActiveTab
               else if isRestrictedUrl u then throw (UnsupportedPage ''restore'')
               else
                (case getRootDomain u of
                   Inl e \<Rightarrow> throw e
                 | Inr rootDomain \<Rightarrow>
                     await (getUserId b) (\<lambda>userId.
                       if userId = [] then throw UserIdMissing
                       else
                         await (fetch_backup b rootDomain userId) (\<lambda>(cookies, localStorageMap).
                         await (replay b t u cookies localStorageMap) (\<lambda>u5.
                         resolve (rootDomain, length cookies)))))))"

subsection \<open>Notions used to state the properties of the operations\<close>

text \<open>
  An operation \<open>emits P\<close> when, from every state, it extends the trace by calls that all
  satisfy \<open>P\<close>. It \<open>keeps_tabs\<close> when it leaves the set of open tabs as it was.
\<close>

definition emits :: "(event \<Rightarrow> bool) \<Rightarrow> 'a io \<Rightarrow> bool" where
  "emits P m = (\<forall>w. \<exists>evs. trace (snd (m w)) = trace w @ evs \<and> list_all P evs)"

definition keeps_tabs :: "'a io \<Rightarrow> bool" where
  "keeps_tabs m = (\<forall>w. open_tabs (snd (m w)) = open_tabs w)"

text \<open>The requests sent to the server so far.\<close>

fun request_of :: "event \<Rightarrow> request list" where
  "request_of (Fetch r) = [r]"
| "request_of e = []"

definition fetches :: "world \<Rightarrow> request list" where
  "fetches w = concat (map request_of (trace w))"



text \<open>
  The URLs of the tabs the harvester has tried to create over \<^verbatim>\<open>https\<close>, in order: one
  for each host it has attempted.
\<close>

fun created_url :: "event \<Rightarrow> string list" where
  "created_url (TabsCreate u) = [u]"
| "created_url e = []"

definition https_attempts :: "world \<Rightarrow> string list" where
  "https_attempts w = filter (\<lambda>u. startsWith u ''https://'') (concat (map created_url (trace w)))"

subsection \<open>An example environment\<close>

text \<open>
  The active tab shows \<^verbatim>\<open>https://www.example.com/home\<close>. The cookie store holds a
  host-only cookie of \<^verbatim>\<open>www.example.com\<close> and cookies of three further hosts. The tab
  opened for \<^verbatim>\<open>b.example.com\<close> never finishes loading, over \<^verbatim>\<open>https\<close> and over
  \<^verbatim>\<open>http\<close>; the other two hosts load. No password and no API base are configured, the
  server answers every request with status 200. The cryptography and the serialisation
  are stand-ins that keep the laws of the real ones: base64 is the identity, the text of
  the example payload parses back to the payload, the derived key is the first 32 bytes
  of the HMAC key block, and a ciphertext is the key, a separator and the plaintext, so
  that decryption under another key is rejected.
\<close>

definition example_cookie :: "string \<Rightarrow> string \<Rightarrow> bool \<Rightarrow> cookie" where
  "example_cookie n d h =
     \<lparr>cookie_name = n, cookie_value = ''1'', cookie_domain = d, cookie_path = ''/'',
      cookie_secure = True, cookie_httpOnly = False, cookie_hostOnly = Some h,
      cookie_sameSite = None, cookie_expirationDate = None, cookie_priority = None,
      cookie_sameParty = None\<rparr>"

definition example_cookies :: "cookie list" where
  "example_cookies =
     [example_cookie ''sid'' ''www.example.com'' True,
      example_cookie ''ta'' ''.a.example.com'' False,
      example_cookie ''tb'' ''.b.example.com'' False,
      example_cookie ''tc'' ''c.example.com'' True]"

definition example_storage :: storage_map where
  "example_storage =
     [(''https://www.example.com'', [(''tab'', ''www'')]),
      (''https://a.example.com'', [(''tab'', ''a'')]),
      (''https://c.example.com'', [(''tab'', ''c'')])]"

definition example_browser :: browser where
  "example_browser =
     \<lparr>tabs_query = Inr [\<lparr>tab_id = 1, tab_url = Some ''https://www.example.com/home''\<rparr>],
      storage_local_get = (\<lambda>k. if k = USER_ID_KEY then Inr (Some ''user-1'') else Inr None),
      cookies_getAllCookieStores = Inr [\<lparr>store_id = ''0'', store_tabIds = [1]\<rparr>],
      cookies_getAll = (\<lambda>q. if query_domain q = Some ''example.com'' then Inr example_cookies
                             else if query_url q = Some ''https://www.example.com/home''
                             then Inr [example_cookie ''sid'' ''www.example.com'' True]
                             else Inr []),
      cookies_set = (\<lambda>d. Inr ()),
      scripting_read = (\<lambda>i. Inr [Some [(''tab'', if i = 1 then ''www'' else if i = 11 then ''a'' else ''c'')]]),
      scripting_write = (\<lambda>i p. Inr ()),
      tabs_create = (\<lambda>u. if u = ''https://a.example.com'' then Inr 11
                          else if u = ''https://b.example.com'' then Inr 12
                          else if u = ''http://b.example.com'' then Inr 13
                          else if u = ''https://c.example.com'' then Inr 14
                          else Inl (LastError ''Invalid url'')),
      tab_load_complete = (\<lambda>i. i \<noteq> 12 \<and> i \<noteq> 13),
      tabs_get = (\<lambda>i. Inr \<lparr>tab_id = i,
                             tab_url = Some (if i = 11 then ''https://a.example.com/''
                                             else if i = 14 then ''https://c.example.com/''
                                             else ''https://b.example.com/'')\<rparr>),
      tabs_reload = (\<lambda>i. Inr ()),
      fetch_response = (\<lambda>req. Inr \<lparr>response_status = 200, response_json = None\<rparr>),
      json_utf8_length = (\<lambda>cs. 100 * length cs),
      getRandomValues = (\<lambda>n. replicate n CHR ''r''),
      btoa = (\<lambda>s. s),
      atob = (\<lambda>s. Inr s),
      JSON_stringify = (\<lambda>p. if p = (example_cookies, example_storage) then ''{example}'' else ''{}''),
      JSON_parse = (\<lambda>s. if s = ''{example}''
                          then Inr \<lparr>decrypted_cookies = Some example_cookies,
                                    decrypted_local_storage = Some example_storage\<rparr>
                          else Inl SyntaxError),
      sha256 = (\<lambda>s. take 32 (s @ replicate 32 (CHR 0x00))),
      pbkdf2_hmac = (\<lambda>k salt n. take 32 k),
      aes_gcm_encrypt = (\<lambda>k iv p. Inr (k @ CHR ''|'' # p)),
      aes_gcm_decrypt = (\<lambda>k iv c. if take (length k) c = k \<and> take 1 (drop (length k) c) = ''|''
                                    then Inr (drop (Suc (length k)) c)
                                    else Inl OperationError)\<rparr>"

definition idle :: world where
  "idle = \<lparr>trace = [], open_tabs = []\<rparr>"

text \<open>What \<^verbatim>\<open>runBackup\<close> has collected in the example environment.\<close>

definition example_collected :: collected where
  "example_collected =
     \<lparr>collected_tabId = 1, collected_rootDomain = ''example.com'',
      collected_userId = ''user-1'',
      collected_currentOrigin = ''https://www.example.com'',
      collected_currentHostname = ''www.example.com'',
      collected_cookies = example_cookies\<rparr>"

text \<open>The example environment with cookies that serialise to 7000 bytes.\<close>

definition oversized_browser :: browser where
  "oversized_browser = example_browser\<lparr>json_utf8_length := (\<lambda>cs. 7000)\<rparr>"

text \<open>
  The example environment where the tab opened for \<^verbatim>\<open>a.example.com\<close> is redirected to
  the site of the active tab.
\<close>

definition redirecting_browser :: browser where
  "redirecting_browser =
     example_browser\<lparr>tabs_get := (\<lambda>i. Inr \<lparr>tab_id = i,
        tab_url = Some (if i = 11 then ''https://www.example.com/login''
                        else ''https://c.example.com/'')\<rparr>)\<rparr>"

text \<open>
  The example environment where the server answers the restore request of a client with
  no password by an encryption envelope:
  \<^verbatim>\<open>200 {"payload": "ciphertext", "salt": "salt", "nonce": "nonce"}\<close>.
\<close>

definition envelope_browser :: browser where
  "envelope_browser =
     example_browser\<lparr>fetch_response := (\<lambda>req. Inr
        \<lparr>response_status = 200,
         response_json = Some \<lparr>data_detail = None, data_cookies = None,
           data_local_storage = None, data_payload = Some ''ciphertext'',
           data_salt = Some ''salt'', data_nonce = Some ''nonce''\<rparr>\<rparr>)\<rparr>"







subsection \<open>Notions used to state the properties of the merge\<close>

text \<open>
  The identity key of a cookie as the documentation gives it: name, domain and path.
\<close>

definition cookie_identity :: "cookie \<Rightarrow> string \<times> string \<times> string" where
  "cookie_identity c = (cookie_name c, cookie_domain c, cookie_path c)"

text \<open>
  \<^verbatim>\<open>mergeCookies\<close> joins the three fields with \<^verbatim>\<open>|\<close>. The joined key determines
  the three fields when neither the name nor the domain contains that character.
\<close>

definition bar_free :: "cookie \<Rightarrow> bool" where
  "bar_free c = (CHR ''|'' \<notin> set (cookie_name c) \<and> CHR ''|'' \<notin> set (cookie_domain c))"

text \<open>
  The invariant of the loop of \<^verbatim>\<open>mergeCookies\<close> after the cookies \<open>seen\<close>: the keys
  of the map are distinct, each entry is the first named cookie seen with its key, and
  every named cookie seen has its key in the map.
\<close>

definition merge_inv :: "(string \<times> cookie) list \<Rightarrow> cookie list \<Rightarrow> bool" where
  "merge_inv merged seen =
     (distinct (map fst merged) \<and>
      (\<forall>(k, c) \<in> set merged. k = cookie_key c \<and> cookie_name c \<noteq> [] \<and>
          find (\<lambda>d. cookie_name d \<noteq> [] \<and> cookie_key d = k) seen = Some c) \<and>
      (\<forall>d \<in> set seen. cookie_name d \<noteq> [] \<longrightarrow> cookie_key d \<in> fst ` set merged))"

text \<open>A host-only cookie \<^verbatim>\<open>a=1\<close> of \<^verbatim>\<open>x.com\<close>, for the examples.\<close>

definition c_plain :: cookie where
  "c_plain = \<lparr>cookie_name = ''a'', cookie_value = ''1'', cookie_domain = ''x.com'',
     cookie_path = ''/'', cookie_secure = False, cookie_httpOnly = False,
     cookie_hostOnly = Some True, cookie_sameSite = None, cookie_expirationDate = None,
     cookie_priority = None, cookie_sameParty = None\<rparr>"


section \<open>Properties\<close>

subsection \<open>Root domain\<close>

lemma slice_last2_nth:
  assumes "2 < length xs"
  shows "slice_last2 xs = [xs ! (length xs - 2), xs ! (length xs - 1)]"
proof (rule nth_equalityI)
  show "length (slice_last2 xs) = length [xs ! (length xs - 2), xs ! (length xs - 1)]"
    using assms by (simp add: slice_last2_def)
next
  fix i assume "i < length (slice_last2 xs)"
  then have "i = 0 \<or> i = 1" using assms by (auto simp: slice_last2_def)
  moreover have "length xs - 2 + 1 = length xs - 1" using assms by simp
  ultimately show "slice_last2 xs ! i = [xs ! (length xs - 2), xs ! (length xs - 1)] ! i"
    using assms by (auto simp: slice_last2_def)
qed

lemma split_on_nonempty: "split_on sep s \<noteq> []"
  by (induction s) (auto split: list.splits)

lemma join_with_Cons_head: "join_with sep ((c # p) # ps) = c # join_with sep (p # ps)"
  by (cases ps) simp_all

lemma join_split: "join_with [sep] (split_on sep s) = s"
proof (induction s)
  case Nil show ?case by simp
next
  case (Cons c cs)
  then show ?case using split_on_nonempty[of sep cs]
    by (cases "split_on sep cs") (auto simp: join_with_Cons_head)
qed

text \<open>
  Claim C4. For every URL, \<^verbatim>\<open>getRootDomain\<close> fails as the URL parser does or, with the
  host name split on the dot, returns the last two labels joined by a dot when there are
  more than two labels and the host name unchanged otherwise. The three URLs of the
  specification give \<^verbatim>\<open>example.com\<close>, \<^verbatim>\<open>example.com\<close> and \<^verbatim>\<open>co.uk\<close>.
\<close>

theorem getRootDomain_last_two_labels:
  "(case new_URL u of
      Inl e \<Rightarrow> getRootDomain u = Inl e
    | Inr parsed \<Rightarrow>
        (let parts = split_on CHR ''.'' (hostname parsed); n = length parts
         in getRootDomain u =
              (if n > 2 then Inr (parts ! (n - 2) @ ''.'' @ parts ! (n - 1))
               else Inr (hostname parsed))))
   \<and> getRootDomain ''https://login.example.com/x'' = Inr ''example.com''
   \<and> getRootDomain ''https://example.com'' = Inr ''example.com''
   \<and> getRootDomain ''https://a.example.co.uk'' = Inr ''co.uk''"
proof (intro conjI)
  show "case new_URL u of
      Inl e \<Rightarrow> getRootDomain u = Inl e
    | Inr parsed \<Rightarrow>
        (let parts = split_on CHR ''.'' (hostname parsed); n = length parts
         in getRootDomain u =
              (if n > 2 then Inr (parts ! (n - 2) @ ''.'' @ parts ! (n - 1))
               else Inr (hostname parsed)))"
    by (simp add: getRootDomain_def Let_def slice_last2_nth split: sum.splits)
  show "getRootDomain ''https://login.example.com/x'' = Inr ''example.com''"
    by code_simp
  show "getRootDomain ''https://example.com'' = Inr ''example.com''"
    by code_simp
  show "getRootDomain ''https://a.example.co.uk'' = Inr ''co.uk''"
    by code_simp
qed

text \<open>
  A host name of three labels: the parser's answer, its labels, and the root domain
  that the theorem gives for them.
\<close>

theorem getRootDomain_last_two_labels_witness:
  "new_URL ''https://shop.example.org/cart'' =
     Inr \<lparr>url_scheme = ''https'', url_host = ''shop.example.org'', url_port = []\<rparr> \<and>
   split_on CHR ''.'' ''shop.example.org'' = [''shop'', ''example'', ''org''] \<and>
   getRootDomain ''https://shop.example.org/cart'' = Inr ''example.org''"
proof -
  have n: "new_URL ''https://shop.example.org/cart'' =
     Inr \<lparr>url_scheme = ''https'', url_host = ''shop.example.org'', url_port = []\<rparr>"
    by code_simp
  have l: "split_on CHR ''.'' ''shop.example.org'' = [''shop'', ''example'', ''org'']"
    by code_simp
  from getRootDomain_last_two_labels[of "''https://shop.example.org/cart''"] n l
  have "getRootDomain ''https://shop.example.org/cart'' = Inr ''example.org''"
    by (simp add: hostname_def Let_def)
  with n l show ?thesis by blast
qed

subsection \<open>Cookie merge\<close>

lemma append_sep_inject:
  "c \<notin> set a \<Longrightarrow> c \<notin> set b \<Longrightarrow> a @ c # x = b @ c # y \<Longrightarrow> a = b \<and> x = y"
proof (induction a arbitrary: b)
  case Nil
  then show ?case by (cases b) auto
next
  case (Cons h a)
  then show ?case by (cases b) auto
qed

lemma cookie_key_inject:
  assumes "bar_free c" "bar_free d"
  shows "cookie_key c = cookie_key d \<longleftrightarrow> cookie_identity c = cookie_identity d"
proof
  assume k: "cookie_key c = cookie_key d"
  have n: "CHR ''|'' \<notin> set (cookie_name c)" "CHR ''|'' \<notin> set (cookie_name d)"
    and m: "CHR ''|'' \<notin> set (cookie_domain c)" "CHR ''|'' \<notin> set (cookie_domain d)"
    using assms by (simp_all add: bar_free_def)
  from k have "cookie_name c @ CHR ''|'' # (cookie_domain c @ CHR ''|'' # cookie_path c) =
               cookie_name d @ CHR ''|'' # (cookie_domain d @ CHR ''|'' # cookie_path d)"
    by (simp add: cookie_key_def)
  from append_sep_inject[OF n this]
  have 1: "cookie_name c = cookie_name d"
    and 2: "cookie_domain c @ CHR ''|'' # cookie_path c = cookie_domain d @ CHR ''|'' # cookie_path d"
    by simp_all
  from append_sep_inject[OF m 2] 1
  show "cookie_identity c = cookie_identity d" by (simp add: cookie_identity_def)
next
  assume "cookie_identity c = cookie_identity d"
  then show "cookie_key c = cookie_key d" by (simp add: cookie_identity_def cookie_key_def)
qed

lemma find_append: "find P (xs @ ys) = (case find P xs of None \<Rightarrow> find P ys | Some x \<Rightarrow> Some x)"
  by (induction xs) auto

lemma map_of_None_iff: "map_of m k = None \<longleftrightarrow> k \<notin> fst ` set m"
  by (simp add: map_of_eq_None_iff)

lemma merge_inv_step:
  assumes "merge_inv merged seen"
  shows "merge_inv (merge_step merged c) (seen @ [c])"
proof (cases "cookie_name c = []")
  case True
  with assms show ?thesis
    by (auto simp: merge_inv_def merge_step_def find_append split: option.splits)
next
  case named: False
  show ?thesis
  proof (cases "cookie_key c \<in> fst ` set merged")
    case True
    with assms named show ?thesis
      by (auto simp: merge_inv_def merge_step_def map_of_None_iff find_append split: option.splits)
  next
    case False
    have nofind: "find (\<lambda>d. cookie_name d \<noteq> [] \<and> cookie_key d = cookie_key c) seen = None"
    proof -
      have "\<forall>d \<in> set seen. cookie_name d \<noteq> [] \<longrightarrow> cookie_key d \<in> fst ` set merged"
        using assms by (simp add: merge_inv_def)
      with False have "\<forall>d \<in> set seen. \<not> (cookie_name d \<noteq> [] \<and> cookie_key d = cookie_key c)"
        by metis
      then show ?thesis by (simp add: find_None_iff)
    qed
    show ?thesis
      using assms named False nofind
      by (auto simp: merge_inv_def merge_step_def map_of_None_iff find_append split: option.splits)
  qed
qed

lemma merge_inv_foldl:
  "merge_inv merged seen \<Longrightarrow> merge_inv (foldl merge_step merged cs) (seen @ cs)"
proof (induction cs arbitrary: merged seen)
  case Nil
  then show ?case by simp
next
  case (Cons c cs)
  from Cons.IH[OF merge_inv_step[OF Cons.prems, of c]] show ?case by simp
qed

lemma merge_inv_all: "merge_inv (foldl merge_step [] cs) cs"
  using merge_inv_foldl[of "[]" "[]" cs] by (simp add: merge_inv_def)


lemma merged_values_facts:
  assumes "merge_inv merged seen"
  shows "map fst merged = map cookie_key (map snd merged)"
    and "\<forall>d \<in> set (map snd merged). cookie_name d \<noteq> [] \<and>
           find (\<lambda>c. cookie_name c \<noteq> [] \<and> cookie_key c = cookie_key d) seen = Some d"
  using assms by (auto simp: merge_inv_def)

lemma find_Some_mem: "find P xs = Some x \<Longrightarrow> x \<in> set xs \<and> P x"
  by (induction xs) (auto split: if_splits)

text \<open>
  Claim C2, as amended. For cookie lists in which no name and no domain contains the
  separator \<^verbatim>\<open>|\<close>, the merge holds exactly one record for each identity key
  (name, domain, path) that occurs with a non-empty name in the concatenation of the
  lists, and that record is the first one of the concatenation with that key. Records
  with an empty name are left out of the result.
\<close>

theorem mergeCookies_one_per_identity:
  assumes "\<forall>c \<in> set (concat cookieLists). bar_free c"
  shows "distinct (map cookie_identity (mergeCookies cookieLists)) \<and>
         cookie_identity ` set (mergeCookies cookieLists) =
           cookie_identity ` {c \<in> set (concat cookieLists). cookie_name c \<noteq> []} \<and>
         (\<forall>d \<in> set (mergeCookies cookieLists).
            find (\<lambda>c. cookie_identity c = cookie_identity d) (concat cookieLists) = Some d)"
proof -
  define cs where "cs = concat cookieLists"
  define merged where "merged = foldl merge_step [] cs"
  define out where "out = map snd merged"
  have out: "mergeCookies cookieLists = out"
    by (simp add: mergeCookies_def out_def merged_def cs_def)
  have inv: "merge_inv merged cs" unfolding merged_def by (rule merge_inv_all)
  have bf: "\<And>c. c \<in> set cs \<Longrightarrow> bar_free c" using assms unfolding cs_def by blast
  have first: "\<And>d. d \<in> set out \<Longrightarrow> cookie_name d \<noteq> [] \<and>
      find (\<lambda>c. cookie_name c \<noteq> [] \<and> cookie_key c = cookie_key d) cs = Some d"
    using merged_values_facts(2)[OF inv] unfolding out_def by blast
  have mem: "\<And>d. d \<in> set out \<Longrightarrow> d \<in> set cs"
    using first find_Some_mem by fastforce
  have dk: "distinct (map cookie_key out)"
    using inv merged_values_facts(1)[OF inv] by (simp add: merge_inv_def out_def)
  have 1: "distinct (map cookie_identity out)"
  proof -
    from dk have d: "distinct out" and i: "inj_on cookie_key (set out)"
      by (simp_all add: distinct_map)
    have "inj_on cookie_identity (set out)"
    proof (rule inj_onI)
      fix x y assume x: "x \<in> set out" and y: "y \<in> set out"
        and e: "cookie_identity x = cookie_identity y"
      then have "cookie_key x = cookie_key y"
        by (simp add: cookie_identity_def cookie_key_def)
      with i x y show "x = y" by (simp add: inj_on_def)
    qed
    with d show ?thesis by (simp add: distinct_map)
  qed
  have 2: "cookie_identity ` set out = cookie_identity ` {c \<in> set cs. cookie_name c \<noteq> []}"
  proof (intro set_eqI iffI)
    fix k assume "k \<in> cookie_identity ` set out"
    then obtain d where "d \<in> set out" "k = cookie_identity d" by auto
    with first mem show "k \<in> cookie_identity ` {c \<in> set cs. cookie_name c \<noteq> []}" by auto
  next
    fix k assume "k \<in> cookie_identity ` {c \<in> set cs. cookie_name c \<noteq> []}"
    then obtain c where c: "c \<in> set cs" "cookie_name c \<noteq> []" "k = cookie_identity c" by auto
    then have "cookie_key c \<in> fst ` set merged" using inv by (simp add: merge_inv_def)
    then have "cookie_key c \<in> set (map cookie_key out)"
      using merged_values_facts(1)[OF inv] by (simp add: out_def image_image)
    then obtain d where d: "d \<in> set out" "cookie_key d = cookie_key c" by auto
    then have "cookie_identity d = cookie_identity c"
      using cookie_key_inject[of d c] bf c(1) mem by simp
    with d(1) c(3) show "k \<in> cookie_identity ` set out" by (metis imageI)
  qed
  have 3: "\<forall>d \<in> set out. find (\<lambda>c. cookie_identity c = cookie_identity d) cs = Some d"
  proof
    fix d assume d: "d \<in> set out"
    have "find (\<lambda>c. cookie_identity c = cookie_identity d) cs =
          find (\<lambda>c. cookie_name c \<noteq> [] \<and> cookie_key c = cookie_key d) cs"
    proof (rule find_cong[OF refl])
      fix c assume c: "c \<in> set cs"
      have "cookie_key c = cookie_key d \<longleftrightarrow> cookie_identity c = cookie_identity d"
        using cookie_key_inject[of c d] bf c mem d by simp
      moreover have "cookie_identity c = cookie_identity d \<Longrightarrow> cookie_name c \<noteq> []"
        using first[OF d] by (simp add: cookie_identity_def)
      ultimately show "(cookie_identity c = cookie_identity d) =
                       (cookie_name c \<noteq> [] \<and> cookie_key c = cookie_key d)" by blast
    qed
    with first[OF d] show "find (\<lambda>c. cookie_identity c = cookie_identity d) cs = Some d" by simp
  qed
  from 1 2 3 show ?thesis unfolding out cs_def[symmetric] by blast
qed

text \<open>
  Claim C2 as stated fails: a cookie with an empty name (the browser stores such
  cookies) has an identity key, and the merge of the list holding it is empty.
\<close>

theorem mergeCookies_drops_nameless:
  "cookie_identity (c_plain\<lparr>cookie_name := []\<rparr>) \<in>
     cookie_identity ` set (concat [[c_plain\<lparr>cookie_name := []\<rparr>]]) \<and>
   mergeCookies [[c_plain\<lparr>cookie_name := []\<rparr>]] = []"
  by (simp add: mergeCookies_def merge_step_def c_plain_def)

text \<open>
  The cookies of scenario A: two records that differ in the domain stay two records, a
  record with the key of an earlier one is dropped and the earlier one is kept.
\<close>

theorem mergeCookies_one_per_identity_witness:
  "list_all bar_free (concat [[c_plain, c_plain\<lparr>cookie_domain := ''y.x.com''\<rparr>],
                              [c_plain\<lparr>cookie_value := ''2''\<rparr>]]) \<and>
   mergeCookies [[c_plain, c_plain\<lparr>cookie_domain := ''y.x.com''\<rparr>],
                 [c_plain\<lparr>cookie_value := ''2''\<rparr>]] =
     [c_plain, c_plain\<lparr>cookie_domain := ''y.x.com''\<rparr>] \<and>
   distinct (map cookie_identity
     (mergeCookies [[c_plain, c_plain\<lparr>cookie_domain := ''y.x.com''\<rparr>],
                    [c_plain\<lparr>cookie_value := ''2''\<rparr>]])) \<and>
   mergeCookies [[c_plain], [c_plain]] = [c_plain]"
proof -
  have h: "\<forall>c \<in> set (concat [[c_plain, c_plain\<lparr>cookie_domain := ''y.x.com''\<rparr>],
                          [c_plain\<lparr>cookie_value := ''2''\<rparr>]]). bar_free c"
    by (simp add: bar_free_def c_plain_def)
  have m: "mergeCookies [[c_plain, c_plain\<lparr>cookie_domain := ''y.x.com''\<rparr>],
                 [c_plain\<lparr>cookie_value := ''2''\<rparr>]] =
     [c_plain, c_plain\<lparr>cookie_domain := ''y.x.com''\<rparr>]"
    by (simp add: mergeCookies_def merge_step_def cookie_key_def c_plain_def)
  have m2: "mergeCookies [[c_plain], [c_plain]] = [c_plain]"
    by (simp add: mergeCookies_def merge_step_def cookie_key_def c_plain_def)
  have l: "list_all bar_free (concat [[c_plain, c_plain\<lparr>cookie_domain := ''y.x.com''\<rparr>],
                              [c_plain\<lparr>cookie_value := ''2''\<rparr>]])"
    by (simp add: bar_free_def c_plain_def)
  from mergeCookies_one_per_identity[OF h] l m m2 show ?thesis by blast
qed

subsection \<open>The ephemeral tab\<close>

lemma keeps_tabs_resolve: "keeps_tabs (resolve x)"
  by (simp add: keeps_tabs_def resolve_def)

lemma keeps_tabs_throw: "keeps_tabs (throw e)"
  by (simp add: keeps_tabs_def throw_def)

lemma keeps_tabs_chromePromise: "keeps_tabs (chromePromise ev r)"
  by (simp add: keeps_tabs_def chromePromise_def)

lemma keeps_tabs_await:
  assumes "keeps_tabs m" and "\<And>x. keeps_tabs (f x)"
  shows "keeps_tabs (await m f)"
  unfolding keeps_tabs_def
proof
  fix w
  obtain r w' where mw: "m w = (r, w')" by (cases "m w")
  have "open_tabs w' = open_tabs w"
    using assms(1) mw by (auto simp: keeps_tabs_def dest: spec[of _ w])
  then show "open_tabs (snd (await m f w)) = open_tabs w"
    using assms(2) mw by (cases r) (auto simp: await_def keeps_tabs_def)
qed

lemma keeps_tabs_read_in_tab: "keeps_tabs (read_in_tab b i)"
  unfolding read_in_tab_def waitForTabLoad_def readLocalStorage_def
  by (auto intro!: keeps_tabs_await keeps_tabs_chromePromise keeps_tabs_throw keeps_tabs_resolve
           split: option.splits sum.splits)

lemma keeps_tabs_write_in_tab: "keeps_tabs (write_in_tab b i p)"
  unfolding write_in_tab_def waitForTabLoad_def writeLocalStorage_def
  by (auto intro!: keeps_tabs_await keeps_tabs_chromePromise keeps_tabs_throw
           split: option.splits)

text \<open>
  The \<^verbatim>\<open>finally\<close> block on a tab that is open: whatever the \<^verbatim>\<open>try\<close> block did, the
  tab is removed last, and the outcome of the \<^verbatim>\<open>try\<close> block stands.
\<close>

lemma try_finally_remove:
  assumes "keeps_tabs m" and "i \<in> set (open_tabs w)"
  shows "open_tabs (snd (try_finally m (chrome_tabs_remove i) w)) = removeAll i (open_tabs w) \<and>
         trace (snd (try_finally m (chrome_tabs_remove i) w)) = trace (snd (m w)) @ [TabsRemove i] \<and>
         fst (try_finally m (chrome_tabs_remove i) w) = fst (m w)"
proof -
  obtain r w' where mw: "m w = (r, w')" by (cases "m w")
  have "open_tabs w' = open_tabs w"
    using assms(1) mw by (auto simp: keeps_tabs_def dest: spec[of _ w])
  then show ?thesis using assms(2) mw by (simp add: try_finally_def chrome_tabs_remove_def)
qed

lemma read_tabs:
  "open_tabs (snd (readLocalStorageForUrl b u w)) =
     (case tabs_create b u of Inl e \<Rightarrow> open_tabs w | Inr i \<Rightarrow> removeAll i (open_tabs w))"
  using try_finally_remove[OF keeps_tabs_read_in_tab]
  by (simp add: readLocalStorageForUrl_def chrome_tabs_create_def split: sum.splits)

lemma write_tabs:
  "open_tabs (snd (writeLocalStorageForUrl b u p w)) =
     (case tabs_create b u of Inl e \<Rightarrow> open_tabs w | Inr i \<Rightarrow> removeAll i (open_tabs w))"
  using try_finally_remove[OF keeps_tabs_write_in_tab]
  by (simp add: writeLocalStorageForUrl_def chrome_tabs_create_def split: sum.splits)

lemma read_last:
  "tabs_create b u = Inr i \<Longrightarrow> last (trace (snd (readLocalStorageForUrl b u w))) = TabsRemove i"
  using try_finally_remove[OF keeps_tabs_read_in_tab]
  by (simp add: readLocalStorageForUrl_def chrome_tabs_create_def)

lemma write_last:
  "tabs_create b u = Inr i \<Longrightarrow> last (trace (snd (writeLocalStorageForUrl b u p w))) = TabsRemove i"
  using try_finally_remove[OF keeps_tabs_write_in_tab]
  by (simp add: writeLocalStorageForUrl_def chrome_tabs_create_def)

text \<open>
  Claim C9. Whenever \<^verbatim>\<open>readLocalStorageForUrl\<close> or \<^verbatim>\<open>writeLocalStorageForUrl\<close> has
  opened its tab, then for every answer of the browser to the calls that follow (the load
  completes or times out, the page is restricted or not, the script runs or fails) the
  tab is not open when the operation ends, and its removal is the last call issued. No
  tab is open afterwards that was not open before.
\<close>

theorem ephemeral_tab_always_closed:
  "(tabs_create b u = Inr i \<longrightarrow>
      i \<notin> set (open_tabs (snd (readLocalStorageForUrl b u w))) \<and>
      last (trace (snd (readLocalStorageForUrl b u w))) = TabsRemove i \<and>
      i \<notin> set (open_tabs (snd (writeLocalStorageForUrl b u payload w))) \<and>
      last (trace (snd (writeLocalStorageForUrl b u payload w))) = TabsRemove i) \<and>
   set (open_tabs (snd (readLocalStorageForUrl b u w))) \<subseteq> set (open_tabs w) \<and>
   set (open_tabs (snd (writeLocalStorageForUrl b u payload w))) \<subseteq> set (open_tabs w)"
  by (auto simp: read_tabs write_tabs read_last write_last split: sum.splits)

text \<open>The tab of the example that times out is removed.\<close>

theorem ephemeral_tab_always_closed_witness:
  "tabs_create example_browser ''https://b.example.com'' = Inr 12 \<and>
   fst (readLocalStorageForUrl example_browser ''https://b.example.com'' idle) = Inl TabLoadTimeout \<and>
   12 \<notin> set (open_tabs (snd (readLocalStorageForUrl example_browser ''https://b.example.com'' idle))) \<and>
   last (trace (snd (readLocalStorageForUrl example_browser ''https://b.example.com'' idle))) =
     TabsRemove 12 \<and>
   last (trace (snd (writeLocalStorageForUrl example_browser ''https://b.example.com'' [] idle))) =
     TabsRemove 12"
proof -
  have c: "tabs_create example_browser ''https://b.example.com'' = Inr 12"
    by (simp add: example_browser_def)
  have t: "fst (readLocalStorageForUrl example_browser ''https://b.example.com'' idle) = Inl TabLoadTimeout"
    by code_simp
  from ephemeral_tab_always_closed[of example_browser "''https://b.example.com''" 12 idle "[]"] c t
  show ?thesis by blast
qed

subsection \<open>The harvesting loop\<close>

lemma emitsD: "emits P m \<Longrightarrow> \<exists>evs. trace (snd (m w)) = trace w @ evs \<and> list_all P evs"
  by (simp add: emits_def)

lemma emits_resolve: "emits P (resolve x)"
  by (simp add: emits_def resolve_def)

lemma emits_throw: "emits P (throw e)"
  by (simp add: emits_def throw_def)

lemma emits_chromePromise: "P ev \<Longrightarrow> emits P (chromePromise ev r)"
  by (simp add: emits_def chromePromise_def)

lemma emits_await:
  assumes "emits P m" and "\<And>x. emits P (f x)"
  shows "emits P (await m f)"
  unfolding emits_def
proof
  fix w
  obtain r w' where mw: "m w = (r, w')" by (cases "m w")
  from emitsD[OF assms(1), of w] mw obtain evs where
    1: "trace w' = trace w @ evs" "list_all P evs" by auto
  show "\<exists>evs. trace (snd (await m f w)) = trace w @ evs \<and> list_all P evs"
  proof (cases r)
    case (Inl e)
    with mw 1 show ?thesis by (auto simp: await_def)
  next
    case (Inr x)
    from emitsD[OF assms(2), of x w'] obtain evs' where
      2: "trace (snd (f x w')) = trace w' @ evs'" "list_all P evs'" by auto
    with mw 1 Inr have "trace (snd (await m f w)) = trace w @ (evs @ evs')" "list_all P (evs @ evs')"
      by (simp_all add: await_def)
    then show ?thesis by blast
  qed
qed

lemma emits_try_catch:
  assumes "emits P m" and "\<And>e. emits P (h e)"
  shows "emits P (try_catch m h)"
  unfolding emits_def
proof
  fix w
  obtain r w' where mw: "m w = (r, w')" by (cases "m w")
  from emitsD[OF assms(1), of w] mw obtain evs where
    1: "trace w' = trace w @ evs" "list_all P evs" by auto
  show "\<exists>evs. trace (snd (try_catch m h w)) = trace w @ evs \<and> list_all P evs"
  proof (cases r)
    case (Inr x)
    with mw 1 show ?thesis by (auto simp: try_catch_def)
  next
    case (Inl e)
    from emitsD[OF assms(2), of e w'] obtain evs' where
      2: "trace (snd (h e w')) = trace w' @ evs'" "list_all P evs'" by auto
    with mw 1 Inl have "trace (snd (try_catch m h w)) = trace w @ (evs @ evs')" "list_all P (evs @ evs')"
      by (simp_all add: try_catch_def)
    then show ?thesis by blast
  qed
qed

lemma emits_try_finally:
  assumes "emits P m" and "emits P fin"
  shows "emits P (try_finally m fin)"
  unfolding emits_def
proof
  fix w
  obtain r w' where mw: "m w = (r, w')" by (cases "m w")
  from emitsD[OF assms(1), of w] mw obtain evs where
    1: "trace w' = trace w @ evs" "list_all P evs" by auto
  obtain r' w'' where fw: "fin w' = (r', w'')" by (cases "fin w'")
  from emitsD[OF assms(2), of w'] fw obtain evs' where
    2: "trace w'' = trace w' @ evs'" "list_all P evs'" by auto
  from mw fw 1 2 have "trace (snd (try_finally m fin w)) = trace w @ (evs @ evs')" "list_all P (evs @ evs')"
    by (cases r'; simp add: try_finally_def)+
  then show "\<exists>evs. trace (snd (try_finally m fin w)) = trace w @ evs \<and> list_all P evs" by blast
qed

lemma emits_chrome_tabs_remove: "P (TabsRemove i) \<Longrightarrow> emits P (chrome_tabs_remove i)"
  by (simp add: emits_def chrome_tabs_remove_def)

lemmas emits_intros =
  emits_resolve emits_throw emits_chromePromise emits_await emits_try_catch emits_try_finally
  emits_chrome_tabs_remove

lemma emits_read_in_tab:
  assumes "\<And>e. created_url e = [] \<Longrightarrow> P e"
  shows "emits P (read_in_tab b i)"
  unfolding read_in_tab_def waitForTabLoad_def readLocalStorage_def
  by (auto intro!: emits_intros assms split: option.splits sum.splits)

lemma emits_write_in_tab:
  assumes "\<And>e. created_url e = [] \<Longrightarrow> P e"
  shows "emits P (write_in_tab b i p)"
  unfolding write_in_tab_def waitForTabLoad_def writeLocalStorage_def
  by (auto intro!: emits_intros assms split: option.splits sum.splits)

lemma readLocalStorageForUrl_trace:
  "\<exists>evs. trace (snd (readLocalStorageForUrl b u w)) = trace w @ TabsCreate u # evs \<and>
         list_all (\<lambda>e. created_url e = [] \<and> request_of e = []) evs"
proof (cases "tabs_create b u")
  case (Inl e)
  then show ?thesis by (simp add: readLocalStorageForUrl_def chrome_tabs_create_def)
next
  case (Inr i)
  have "emits (\<lambda>e. created_url e = [] \<and> request_of e = [])
          (try_finally (read_in_tab b i) (chrome_tabs_remove i))"
    unfolding read_in_tab_def waitForTabLoad_def readLocalStorage_def
    by (auto intro!: emits_intros split: option.splits sum.splits)
  from emitsD[OF this, of "w\<lparr>trace := trace w @ [TabsCreate u], open_tabs := i # open_tabs w\<rparr>"]
  show ?thesis using Inr by (simp add: readLocalStorageForUrl_def chrome_tabs_create_def)
qed

lemma writeLocalStorageForUrl_trace:
  "\<exists>evs. trace (snd (writeLocalStorageForUrl b u p w)) = trace w @ TabsCreate u # evs \<and>
         list_all (\<lambda>e. created_url e = [] \<and> request_of e = []) evs"
proof (cases "tabs_create b u")
  case (Inl e)
  then show ?thesis by (simp add: writeLocalStorageForUrl_def chrome_tabs_create_def)
next
  case (Inr i)
  have "emits (\<lambda>e. created_url e = [] \<and> request_of e = [])
          (try_finally (write_in_tab b i p) (chrome_tabs_remove i))"
    unfolding write_in_tab_def waitForTabLoad_def writeLocalStorage_def
    by (auto intro!: emits_intros split: option.splits sum.splits)
  from emitsD[OF this, of "w\<lparr>trace := trace w @ [TabsCreate u], open_tabs := i # open_tabs w\<rparr>"]
  show ?thesis using Inr by (simp add: writeLocalStorageForUrl_def chrome_tabs_create_def)
qed

lemma created_none: "list_all (\<lambda>e. created_url e = [] \<and> request_of e = []) evs \<Longrightarrow>
   concat (map created_url evs) = [] \<and> concat (map request_of evs) = []"
  by (simp add: list_all_iff)

lemma readLocalStorageForUrl_effect:
  "https_attempts (snd (readLocalStorageForUrl b u w)) =
     https_attempts w @ (if startsWith u ''https://'' then [u] else []) \<and>
   fetches (snd (readLocalStorageForUrl b u w)) = fetches w"
proof -
  obtain evs where t: "trace (snd (readLocalStorageForUrl b u w)) = trace w @ TabsCreate u # evs"
    and l: "list_all (\<lambda>e. created_url e = [] \<and> request_of e = []) evs"
    using readLocalStorageForUrl_trace[of b u w] by blast
  from created_none[OF l] show ?thesis
    unfolding https_attempts_def fetches_def t by simp
qed

lemma harvest_host_cases:
  "harvest_host b host w =
     (case readLocalStorageForUrl b (''https://'' @ host) w of
        (Inr r, w1) \<Rightarrow> (Inr (Some r), w1)
      | (Inl e, w1) \<Rightarrow>
          (case readLocalStorageForUrl b (''http://'' @ host) w1 of
             (Inr r, w2) \<Rightarrow> (Inr (Some r), w2)
           | (Inl e2, w2) \<Rightarrow> (Inr None, w2)))"
proof -
  obtain r1 w1 where 1: "readLocalStorageForUrl b (''https://'' @ host) w = (r1, w1)"
    by (cases "readLocalStorageForUrl b (''https://'' @ host) w")
  obtain r2 w2 where 2: "readLocalStorageForUrl b (''http://'' @ host) w1 = (r2, w2)"
    by (cases "readLocalStorageForUrl b (''http://'' @ host) w1")
  show ?thesis
    using 1 2 by (cases r1; cases r2; simp add: harvest_host_def try_catch_def await_def resolve_def)
qed

lemma harvest_host_total: "\<exists>r. fst (harvest_host b host w) = Inr r"
  by (simp add: harvest_host_cases split: prod.splits sum.splits)

lemma harvest_host_effect:
  "https_attempts (snd (harvest_host b host w)) = https_attempts w @ [''https://'' @ host] \<and>
   fetches (snd (harvest_host b host w)) = fetches w"
proof -
  obtain r1 w1 where 1: "readLocalStorageForUrl b (''https://'' @ host) w = (r1, w1)"
    by (cases "readLocalStorageForUrl b (''https://'' @ host) w")
  obtain r2 w2 where 2: "readLocalStorageForUrl b (''http://'' @ host) w1 = (r2, w2)"
    by (cases "readLocalStorageForUrl b (''http://'' @ host) w1")
  have e1: "https_attempts w1 = https_attempts w @ [''https://'' @ host]" "fetches w1 = fetches w"
    using readLocalStorageForUrl_effect[of b "''https://'' @ host" w] 1 by (simp_all add: startsWith_def)
  have e2: "https_attempts w2 = https_attempts w1" "fetches w2 = fetches w1"
    using readLocalStorageForUrl_effect[of b "''http://'' @ host" w1] 2 by (simp_all add: startsWith_def)
  show ?thesis using 1 2 e1 e2
    by (cases r1; cases r2) (simp_all add: harvest_host_cases)
qed

lemma harvest_loop_Cons:
  "host \<noteq> cur \<Longrightarrow> harvest_host b host w = (Inr r, w1) \<Longrightarrow>
   harvest_loop b cur (host # hosts) m w = harvest_loop b cur hosts (record_snapshot m r) w1"
  by (simp add: await_def)

lemma harvest_loop_total_effect:
  "\<exists>m'. fst (harvest_loop b cur hosts m w) = Inr m' \<and>
     https_attempts (snd (harvest_loop b cur hosts m w)) =
       https_attempts w @ map (\<lambda>h. ''https://'' @ h) (filter (\<lambda>h. h \<noteq> cur) hosts) \<and>
     fetches (snd (harvest_loop b cur hosts m w)) = fetches w"
proof (induction hosts arbitrary: m w)
  case Nil
  show ?case by (simp add: resolve_def)
next
  case (Cons host hosts)
  show ?case
  proof (cases "host = cur")
    case True
    with Cons.IH[of m w] show ?thesis by simp
  next
    case False
    obtain r w1 where h: "harvest_host b host w = (Inr r, w1)"
      using harvest_host_total[of b host w] by (cases "harvest_host b host w") auto
    from harvest_host_effect[of b host w] h
    have e: "https_attempts w1 = https_attempts w @ [''https://'' @ host]" "fetches w1 = fetches w"
      by simp_all
    from Cons.IH[of "record_snapshot m r" w1] e False show ?thesis
      unfolding harvest_loop_Cons[OF False h] by simp
  qed
qed

lemma record_snapshot_extends: "\<exists>ext. record_snapshot m r = m @ ext"
  by (auto simp: record_snapshot_def split: option.splits)

lemma map_of_extends: "map_of m k = Some v \<Longrightarrow> map_of (m @ ext) k = Some v"
  by (simp add: map_add_Some_iff)

lemma harvest_loop_extends:
  "harvest_loop b cur hosts m w = (Inr m', w') \<Longrightarrow> \<exists>ext. m' = m @ ext"
proof (induction hosts arbitrary: m w)
  case Nil
  then show ?case by (simp add: resolve_def)
next
  case (Cons host hosts)
  show ?case
  proof (cases "host = cur")
    case True
    with Cons show ?thesis by simp
  next
    case False
    obtain r w1 where h: "harvest_host b host w = (Inr r, w1)"
      using harvest_host_total[of b host w] by (cases "harvest_host b host w") auto
    from Cons.prems have "harvest_loop b cur hosts (record_snapshot m r) w1 = (Inr m', w')"
      unfolding harvest_loop_Cons[OF False h] .
    from Cons.IH[OF this] obtain ext where "m' = record_snapshot m r @ ext" by blast
    moreover obtain ext0 where "record_snapshot m r = m @ ext0"
      using record_snapshot_extends by blast
    ultimately show ?thesis by simp
  qed
qed

lemma harvest_loop_append:
  "harvest_loop b cur (hs1 @ hs2) m w =
     (case harvest_loop b cur hs1 m w of
        (Inl e, w1) \<Rightarrow> (Inl e, w1)
      | (Inr m1, w1) \<Rightarrow> harvest_loop b cur hs2 m1 w1)"
proof (induction hs1 arbitrary: m w)
  case Nil
  show ?case by (simp add: resolve_def)
next
  case (Cons host hs1)
  show ?case
  proof (cases "host = cur")
    case True
    with Cons.IH[of m w] show ?thesis by simp
  next
    case False
    obtain r w1 where h: "harvest_host b host w = (Inr r, w1)"
      using harvest_host_total[of b host w] by (cases "harvest_host b host w") auto
    show ?thesis
      using Cons.IH[of "record_snapshot m r" w1] harvest_loop_Cons[OF False h]
      by simp
  qed
qed

text \<open>
  The loop over \<open>hs1 @ hs2\<close> is the loop over \<open>hs1\<close> followed by the loop over
  \<open>hs2\<close>, and each of them only appends entries to the map.
\<close>

lemma harvest_loop_prefix:
  assumes "harvest_loop b cur (hs1 @ hs2) m w = (Inr m2, w2)"
  shows "\<exists>m1 w1. harvest_loop b cur hs1 m w = (Inr m1, w1) \<and>
                 harvest_loop b cur hs2 m1 w1 = (Inr m2, w2) \<and>
                 (\<forall>orig data. map_of m1 orig = Some data \<longrightarrow> map_of m2 orig = Some data) \<and>
                 (\<forall>orig data. map_of m orig = Some data \<longrightarrow> map_of m2 orig = Some data)"
proof -
  obtain r1 w1 where 1: "harvest_loop b cur hs1 m w = (r1, w1)"
    by (cases "harvest_loop b cur hs1 m w")
  from harvest_loop_total_effect[of b cur hs1 m w] 1 obtain m1 where r1: "r1 = Inr m1" by auto
  from assms 1 r1 have 2: "harvest_loop b cur hs2 m1 w1 = (Inr m2, w2)"
    by (simp add: harvest_loop_append)
  from harvest_loop_extends[OF 2] obtain ext2 where e2: "m2 = m1 @ ext2" by blast
  from harvest_loop_extends[of b cur hs1 m w m1 w1] 1 r1 obtain ext1 where e1: "m1 = m @ ext1" by blast
  have "\<forall>orig data. map_of m1 orig = Some data \<longrightarrow> map_of m2 orig = Some data"
    unfolding e2 by (simp add: map_of_extends)
  moreover have "\<forall>orig data. map_of m orig = Some data \<longrightarrow> map_of m2 orig = Some data"
    unfolding e2 e1 by (simp add: map_of_extends)
  ultimately show ?thesis using 1 r1 2 by blast
qed

text \<open>
  Claim C10. The harvesting loop never overwrites an entry of the storage map: when the
  loop over the candidate hosts ends, every origin that had a snapshot after any prefix
  of the hosts, and every origin that had one before the loop (as the active tab's own
  origin has), still has the same snapshot.
\<close>

theorem harvest_keeps_first_snapshot:
  assumes "fst (harvest_loop b cur (hs1 @ hs2) m w) = Inr m2"
  shows "\<exists>m1. fst (harvest_loop b cur hs1 m w) = Inr m1 \<and>
              fst (harvest_loop b cur hs2 m1 (snd (harvest_loop b cur hs1 m w))) = Inr m2 \<and>
              (\<forall>orig data. map_of m1 orig = Some data \<longrightarrow> map_of m2 orig = Some data) \<and>
              (\<forall>orig data. map_of m orig = Some data \<longrightarrow> map_of m2 orig = Some data)"
proof -
  obtain w2 where a: "harvest_loop b cur (hs1 @ hs2) m w = (Inr m2, w2)"
    using assms by (cases "harvest_loop b cur (hs1 @ hs2) m w") simp
  from harvest_loop_prefix[OF a] obtain m1 w1 where
    "harvest_loop b cur hs1 m w = (Inr m1, w1)" "harvest_loop b cur hs2 m1 w1 = (Inr m2, w2)"
    "\<forall>orig data. map_of m1 orig = Some data \<longrightarrow> map_of m2 orig = Some data"
    "\<forall>orig data. map_of m orig = Some data \<longrightarrow> map_of m2 orig = Some data"
    by blast
  then show ?thesis by auto
qed

text \<open>
  The example where the tab of the first host is redirected to the origin of the active
  tab: the snapshot of the active tab stays.
\<close>

theorem harvest_keeps_first_snapshot_witness:
  "fst (harvest_loop redirecting_browser ''www.example.com''
          ([''a.example.com''] @ [''c.example.com''])
          [(''https://www.example.com'', [(''tab'', ''www'')])] idle) =
     Inr [(''https://www.example.com'', [(''tab'', ''www'')]),
          (''https://c.example.com'', [(''tab'', ''c'')])] \<and>
   fst (readLocalStorageForUrl redirecting_browser ''https://a.example.com'' idle) =
     Inr (''https://www.example.com'', [(''tab'', ''a'')]) \<and>
   map_of [(''https://www.example.com'', [(''tab'', ''www'')]),
           (''https://c.example.com'', [(''tab'', ''c'')])] ''https://www.example.com'' =
     Some [(''tab'', ''www'')]"
proof -
  have h: "fst (harvest_loop redirecting_browser ''www.example.com''
          ([''a.example.com''] @ [''c.example.com''])
          [(''https://www.example.com'', [(''tab'', ''www'')])] idle) =
     Inr [(''https://www.example.com'', [(''tab'', ''www'')]),
          (''https://c.example.com'', [(''tab'', ''c'')])]"
    by code_simp
  have r: "fst (readLocalStorageForUrl redirecting_browser ''https://a.example.com'' idle) =
     Inr (''https://www.example.com'', [(''tab'', ''a'')])"
    by code_simp
  have i: "map_of [(''https://www.example.com'', [(''tab'', ''www'')])] ''https://www.example.com''
            = Some [(''tab'', ''www'')]" by simp
  from harvest_keeps_first_snapshot[OF h] i
  have "map_of [(''https://www.example.com'', [(''tab'', ''www'')]),
           (''https://c.example.com'', [(''tab'', ''c'')])] ''https://www.example.com'' =
     Some [(''tab'', ''www'')]" by blast
  with h r show ?thesis by blast
qed

subsection \<open>Backup as a whole\<close>

lemma emits_fetches: "emits (\<lambda>e. request_of e = []) m \<Longrightarrow> fetches (snd (m w)) = fetches w"
proof -
  assume "emits (\<lambda>e. request_of e = []) m"
  from emitsD[OF this, of w] obtain evs where
    "trace (snd (m w)) = trace w @ evs" "list_all (\<lambda>e. request_of e = []) evs" by blast
  then show ?thesis by (simp add: fetches_def list_all_iff)
qed

lemma emits_cookie_buckets:
  "emits (\<lambda>e. request_of e = []) (cookie_buckets b storeId qs)"
  by (induction qs) (auto intro!: emits_intros)

lemma emits_getCookieStoreIdForTab:
  "emits (\<lambda>e. request_of e = []) (getCookieStoreIdForTab b i)"
  unfolding getCookieStoreIdForTab_def by (auto intro!: emits_intros)

lemma emits_collectCookies: "emits (\<lambda>e. request_of e = []) (collectCookies b)"
  unfolding collectCookies_def getActiveTab_def getUserId_def Let_def
  by (auto intro!: emits_intros emits_cookie_buckets emits_getCookieStoreIdForTab
           split: option.splits sum.splits list.splits)

lemma emits_readLocalStorage: "emits (\<lambda>e. request_of e = []) (readLocalStorage b i)"
  unfolding readLocalStorage_def by (auto intro!: emits_intros)

lemma submitBackup_fetches:
  "fetches (snd (submitBackup b c m w)) = fetches w \<or>
   (\<exists>req. fetches (snd (submitBackup b c m w)) = fetches w @ [req] \<and>
      (request_body req =
         Some (PlainBody (collected_userId c) [] (collected_rootDomain c) (collected_cookies c) m) \<or>
       (\<exists>pw enc. encrypt_result b (collected_cookies c, m) pw = Inr enc \<and>
          request_body req =
            Some (E2EBody (collected_userId c) [] (collected_rootDomain c) enc))))"
  by (auto simp: submitBackup_def getApiBase_def getApiPassword_def await_def chromePromise_def
        resolve_def throw_def fetch_def encryptE2EPayload_def fetches_def Let_def
      split: sum.splits if_splits)

lemma runBackup_cases:
  assumes "collectCookies b w = (Inr c, w1)"
  shows "fetches (snd (runBackup b w)) = fetches w \<or>
         (\<exists>m w3. fetches w3 = fetches w \<and> runBackup b w = submitBackup b c m w3)"
proof -
  have f1: "fetches w1 = fetches w"
    using emits_fetches[OF emits_collectCookies, of b w] assms(1) by simp
  show ?thesis
  proof (cases "getCookiesSizeBytes b (collected_cookies c) > COOKIE_SIZE_LIMIT_BYTES")
    case True
    then show ?thesis using assms f1 by (simp add: runBackup_def await_def throw_def)
  next
    case False
    obtain r2 w2 where 2: "readLocalStorage b (collected_tabId c) w1 = (r2, w2)"
      by (cases "readLocalStorage b (collected_tabId c) w1")
    have f2: "fetches w2 = fetches w"
      using emits_fetches[OF emits_readLocalStorage, of b "collected_tabId c" w1] 2 f1 by simp
    show ?thesis
    proof (cases r2)
      case (Inl e)
      then show ?thesis using assms False 2 f2 by (simp add: runBackup_def await_def)
    next
      case (Inr localStorageData)
      define hosts where "hosts = collectCandidateHosts (collected_cookies c) (collected_currentHostname c)"
      obtain r3 w3 where 3: "harvest_loop b (collected_currentHostname c) hosts
                               [(collected_currentOrigin c, localStorageData)] w2 = (r3, w3)"
        by (cases "harvest_loop b (collected_currentHostname c) hosts
                               [(collected_currentOrigin c, localStorageData)] w2")
      from harvest_loop_total_effect[of b "collected_currentHostname c" hosts
             "[(collected_currentOrigin c, localStorageData)]" w2] 3
      obtain m where m: "r3 = Inr m" and f3: "fetches w3 = fetches w2" by auto
      have "runBackup b w = submitBackup b c m w3"
        using assms False 2 Inr 3 m by (simp add: runBackup_def await_def hosts_def)
      with f2 f3 show ?thesis by auto
    qed
  qed
qed



text \<open>
  Claim C5. The ceiling is 6 KiB. Whenever \<^verbatim>\<open>runBackup\<close> has collected a cookie set
  whose serialisation is longer than the ceiling, it fails with the size-exceeded error
  in the state in which the collection ended: no request has been sent to the server,
  and nothing is sent afterwards.
\<close>

theorem oversized_cookies_rejected_before_upload:
  assumes "fst (collectCookies b w) = Inr c"
    and "getCookiesSizeBytes b (collected_cookies c) > COOKIE_SIZE_LIMIT_BYTES"
  shows "COOKIE_SIZE_LIMIT_BYTES = 6 * 1024 \<and>
         runBackup b w = (Inl (CookieSizeExceeded 6), snd (collectCookies b w)) \<and>
         fetches (snd (runBackup b w)) = fetches w"
proof -
  obtain w1 where c: "collectCookies b w = (Inr c, w1)"
    using assms(1) by (cases "collectCookies b w") simp
  have r: "runBackup b w = (Inl (CookieSizeExceeded 6), w1)"
    using c assms(2) by (simp add: runBackup_def await_def throw_def COOKIE_SIZE_LIMIT_BYTES_def)
  have "fetches (snd (collectCookies b w)) = fetches w"
    by (rule emits_fetches[OF emits_collectCookies])
  with r c show ?thesis by (simp add: COOKIE_SIZE_LIMIT_BYTES_def)
qed

text \<open>The example with cookies of 7000 bytes.\<close>

theorem oversized_cookies_rejected_before_upload_witness:
  "fst (collectCookies oversized_browser idle) = Inr example_collected \<and>
   getCookiesSizeBytes oversized_browser (collected_cookies example_collected) = 7000 \<and>
   fst (runBackup oversized_browser idle) = Inl (CookieSizeExceeded 6) \<and>
   fetches (snd (runBackup oversized_browser idle)) = []"
proof -
  have h1: "fst (collectCookies oversized_browser idle) = Inr example_collected"
    by code_simp
  have h2: "getCookiesSizeBytes oversized_browser (collected_cookies example_collected) = 7000"
    by code_simp
  have h3: "getCookiesSizeBytes oversized_browser (collected_cookies example_collected)
              > COOKIE_SIZE_LIMIT_BYTES"
    unfolding h2 by (simp add: COOKIE_SIZE_LIMIT_BYTES_def)
  have f: "fetches idle = []" by (simp add: fetches_def idle_def)
  note t = oversized_cookies_rejected_before_upload[OF h1 h3]
  from t have "fst (runBackup oversized_browser idle) = Inl (CookieSizeExceeded 6)"
    by (metis fst_conv)
  moreover from t have "fetches (snd (runBackup oversized_browser idle)) = fetches idle"
    by blast
  ultimately show ?thesis using h1 h2 f by metis
qed

text \<open>
  Claim C8, as amended. Whenever \<^verbatim>\<open>runBackup\<close> has collected its cookies, it sends at
  most one request, and the cookies of that request are the collected records as they
  are, the \<^verbatim>\<open>hostOnly\<close> field included: they are the \<^verbatim>\<open>cookies\<close> of the plain
  body, or the \<^verbatim>\<open>cookies\<close> of the payload that was encrypted into the body.
\<close>

theorem cookies_transported_as_collected:
  assumes "fst (collectCookies b w) = Inr c"
  shows "fetches (snd (runBackup b w)) = fetches w \<or>
         (\<exists>req m. fetches (snd (runBackup b w)) = fetches w @ [req] \<and>
            (request_body req =
               Some (PlainBody (collected_userId c) [] (collected_rootDomain c) (collected_cookies c) m) \<or>
             (\<exists>pw enc. encrypt_result b (collected_cookies c, m) pw = Inr enc \<and>
                request_body req =
                  Some (E2EBody (collected_userId c) [] (collected_rootDomain c) enc))))"
proof -
  obtain w1 where c: "collectCookies b w = (Inr c, w1)"
    using assms(1) by (cases "collectCookies b w") simp
  from runBackup_cases[OF c] show ?thesis
  proof
    assume "fetches (snd (runBackup b w)) = fetches w"
    then show ?thesis by simp
  next
    assume "\<exists>m w3. fetches w3 = fetches w \<and> runBackup b w = submitBackup b c m w3"
    then obtain m w3 where f: "fetches w3 = fetches w" and r: "runBackup b w = submitBackup b c m w3"
      by blast
    from submitBackup_fetches[of b c m w3] show ?thesis unfolding r f by blast
  qed
qed

text \<open>
  Claim C8 as stated fails: in the example the host-only cookie \<^verbatim>\<open>sid\<close> is posted
  with \<^verbatim>\<open>hostOnly = true\<close>.
\<close>

theorem backup_uploads_hostOnly:
  "map request_body (fetches (snd (runBackup example_browser idle))) =
     [Some (PlainBody ''user-1'' [] ''example.com''
        [example_cookie ''sid'' ''www.example.com'' True,
         example_cookie ''ta'' ''.a.example.com'' False,
         example_cookie ''tb'' ''.b.example.com'' False,
         example_cookie ''tc'' ''c.example.com'' True]
        [(''https://www.example.com'', [(''tab'', ''www'')]),
         (''https://a.example.com'', [(''tab'', ''a'')]),
         (''https://c.example.com'', [(''tab'', ''c'')])])] \<and>
   cookie_hostOnly (example_cookie ''sid'' ''www.example.com'' True) = Some True"
  by code_simp

text \<open>The example, with no password: one plain request with the collected cookies.\<close>

theorem cookies_transported_as_collected_witness:
  "fst (collectCookies example_browser idle) = Inr example_collected \<and>
   (\<exists>req m. fetches (snd (runBackup example_browser idle)) = [req] \<and>
      request_body req =
        Some (PlainBody ''user-1'' [] ''example.com'' example_cookies m))"
proof -
  have h1: "fst (collectCookies example_browser idle) = Inr example_collected"
    by code_simp
  have f: "fetches idle = []" by (simp add: fetches_def idle_def)
  have n: "fetches (snd (runBackup example_browser idle)) \<noteq> []" by code_simp
  have p: "\<And>req enc. length (fetches (snd (runBackup example_browser idle))) = 1 \<Longrightarrow>
      request_body (hd (fetches (snd (runBackup example_browser idle)))) \<noteq>
        Some (E2EBody ''user-1'' [] ''example.com'' enc)"
    by code_simp
  from cookies_transported_as_collected[OF h1] n f
  obtain req m where r: "fetches (snd (runBackup example_browser idle)) = [req]"
    and b: "request_body req = Some (PlainBody ''user-1'' [] ''example.com'' example_cookies m) \<or>
       (\<exists>pw enc. encrypt_result example_browser (example_cookies, m) pw = Inr enc \<and>
          request_body req = Some (E2EBody ''user-1'' [] ''example.com'' enc))"
    by (auto simp: example_collected_def)
  from p r have "\<And>enc. request_body req \<noteq> Some (E2EBody ''user-1'' [] ''example.com'' enc)"
    by simp
  with b have "request_body req = Some (PlainBody ''user-1'' [] ''example.com'' example_cookies m)"
    by blast
  with r h1 show ?thesis by blast
qed




subsection \<open>Restore\<close>

text \<open>
  Claim C7, at the failing input. No password is configured and the server answers the
  restore request with an encryption envelope. \<^verbatim>\<open>runRestore\<close> does not fail with
  \<^verbatim>\<open>PasswordRequired\<close>: it sets no cookie, writes no storage, reloads the tab and
  reports a restore of 0 cookies.
\<close>

theorem restore_envelope_without_password:
  "runRestore envelope_browser idle =
     (Inr (''example.com'', 0),
      \<lparr>trace = [TabsQuery, StorageLocalGet ''userId'', StorageLocalGet ''apiBase'',
                StorageLocalGet ''apiPassword'',
                Fetch \<lparr>request_method = ''GET'',
                       request_url = ''http://localhost:8000/restore/example.com'',
                       request_headers = [(''X-USK-User'', ''user-1'')],
                       request_body = None\<rparr>,
                CookiesGetAllCookieStores, TabsReload 1],
       open_tabs = []\<rparr>)"
  by code_simp

text \<open>
  The guard \<^verbatim>\<open>if (!apiPassword) throw ...error_password_required\<close> stands under
  \<^verbatim>\<open>if (useE2E)\<close> with \<^verbatim>\<open>useE2E = Boolean(apiPassword)\<close>: it never fires.
\<close>

lemma password_guard_unreachable:
  "fst (unpack_backup b (apiPassword \<noteq> []) apiPassword data w) \<noteq> Inl PasswordRequired"
  by (auto simp: unpack_backup_def try_catch_def await_def resolve_def throw_def
        decryptE2EPayload_def split: sum.splits)

subsection \<open>Cookie replay\<close>
















subsection \<open>The encryption envelope\<close>







end
